theory Spec2Isabelle
  imports Complex_Main "HOL-Library.Sublist"
begin

section \<open>Python strings\<close>

text \<open>
  A Python \<^verbatim>\<open>str\<close> is a sequence of Unicode code points; it is modelled as a list of
  code points (natural numbers), so that \<^verbatim>\<open>len\<close> is \<^term>\<open>length\<close> and a Cyrillic letter
  is one element. The letters of the Russian alphabet get names: \<open>c_k\<close> is U+043A
  (small ka), \<open>C_k\<close> is U+041A (capital ka), and so on in the usual transliteration
  (\<open>c_hard\<close>, \<open>c_soft\<close> are the hard and soft signs, \<open>c_eh\<close> is U+044D, \<open>c_yo\<close> is U+0451).
  ASCII text is written \<open>asc ''...''\<close>.
\<close>

type_synonym pystr = "nat list"

abbreviation c_a :: nat where "c_a \<equiv> 1072"
abbreviation c_b :: nat where "c_b \<equiv> 1073"
abbreviation c_v :: nat where "c_v \<equiv> 1074"
abbreviation c_g :: nat where "c_g \<equiv> 1075"
abbreviation c_d :: nat where "c_d \<equiv> 1076"
abbreviation c_e :: nat where "c_e \<equiv> 1077"
abbreviation c_zh :: nat where "c_zh \<equiv> 1078"
abbreviation c_z :: nat where "c_z \<equiv> 1079"
abbreviation c_i :: nat where "c_i \<equiv> 1080"
abbreviation c_j :: nat where "c_j \<equiv> 1081"
abbreviation c_k :: nat where "c_k \<equiv> 1082"
abbreviation c_l :: nat where "c_l \<equiv> 1083"
abbreviation c_m :: nat where "c_m \<equiv> 1084"
abbreviation c_n :: nat where "c_n \<equiv> 1085"
abbreviation c_o :: nat where "c_o \<equiv> 1086"
abbreviation c_p :: nat where "c_p \<equiv> 1087"
abbreviation c_r :: nat where "c_r \<equiv> 1088"
abbreviation c_s :: nat where "c_s \<equiv> 1089"
abbreviation c_t :: nat where "c_t \<equiv> 1090"
abbreviation c_u :: nat where "c_u \<equiv> 1091"
abbreviation c_f :: nat where "c_f \<equiv> 1092"
abbreviation c_kh :: nat where "c_kh \<equiv> 1093"
abbreviation c_ts :: nat where "c_ts \<equiv> 1094"
abbreviation c_ch :: nat where "c_ch \<equiv> 1095"
abbreviation c_sh :: nat where "c_sh \<equiv> 1096"
abbreviation c_shch :: nat where "c_shch \<equiv> 1097"
abbreviation c_hard :: nat where "c_hard \<equiv> 1098"
abbreviation c_y :: nat where "c_y \<equiv> 1099"
abbreviation c_soft :: nat where "c_soft \<equiv> 1100"
abbreviation c_eh :: nat where "c_eh \<equiv> 1101"
abbreviation c_yu :: nat where "c_yu \<equiv> 1102"
abbreviation c_ya :: nat where "c_ya \<equiv> 1103"
abbreviation c_yo :: nat where "c_yo \<equiv> 1105"

abbreviation C_a :: nat where "C_a \<equiv> 1040"
abbreviation C_b :: nat where "C_b \<equiv> 1041"
abbreviation C_v :: nat where "C_v \<equiv> 1042"
abbreviation C_g :: nat where "C_g \<equiv> 1043"
abbreviation C_d :: nat where "C_d \<equiv> 1044"
abbreviation C_e :: nat where "C_e \<equiv> 1045"
abbreviation C_zh :: nat where "C_zh \<equiv> 1046"
abbreviation C_z :: nat where "C_z \<equiv> 1047"
abbreviation C_i :: nat where "C_i \<equiv> 1048"
abbreviation C_j :: nat where "C_j \<equiv> 1049"
abbreviation C_k :: nat where "C_k \<equiv> 1050"
abbreviation C_l :: nat where "C_l \<equiv> 1051"
abbreviation C_m :: nat where "C_m \<equiv> 1052"
abbreviation C_n :: nat where "C_n \<equiv> 1053"
abbreviation C_o :: nat where "C_o \<equiv> 1054"
abbreviation C_p :: nat where "C_p \<equiv> 1055"
abbreviation C_r :: nat where "C_r \<equiv> 1056"
abbreviation C_s :: nat where "C_s \<equiv> 1057"
abbreviation C_t :: nat where "C_t \<equiv> 1058"
abbreviation C_u :: nat where "C_u \<equiv> 1059"
abbreviation C_f :: nat where "C_f \<equiv> 1060"
abbreviation C_kh :: nat where "C_kh \<equiv> 1061"
abbreviation C_ts :: nat where "C_ts \<equiv> 1062"
abbreviation C_ch :: nat where "C_ch \<equiv> 1063"
abbreviation C_sh :: nat where "C_sh \<equiv> 1064"
abbreviation C_shch :: nat where "C_shch \<equiv> 1065"
abbreviation C_hard :: nat where "C_hard \<equiv> 1066"
abbreviation C_y :: nat where "C_y \<equiv> 1067"
abbreviation C_soft :: nat where "C_soft \<equiv> 1068"
abbreviation C_eh :: nat where "C_eh \<equiv> 1069"
abbreviation C_yu :: nat where "C_yu \<equiv> 1070"
abbreviation C_ya :: nat where "C_ya \<equiv> 1071"
abbreviation C_yo :: nat where "C_yo \<equiv> 1025"

abbreviation asc :: "string \<Rightarrow> pystr" where
  "asc s \<equiv> map of_char s"
subsection \<open>Case folding, whitespace, word characters\<close>

text \<open>
  \<^verbatim>\<open>str.lower()\<close> on the alphabets the analyzer is written for: ASCII \<open>A-Z\<close> and the
  Cyrillic capitals U+0400..U+042F map to their small letters, every other code point of
  ASCII and of the Cyrillic block U+0400..U+045F is unchanged. Code points of other cased
  scripts are left as they are; texts over them are outside this model.
\<close>

definition lower_cp :: "nat \<Rightarrow> nat" where
  "lower_cp c =
     (if 65 \<le> c \<and> c \<le> 90 then c + 32
      else if 1040 \<le> c \<and> c \<le> 1071 then c + 32
      else if 1024 \<le> c \<and> c \<le> 1039 then c + 80
      else c)"

definition lower :: "pystr \<Rightarrow> pystr" where
  "lower s = map lower_cp s"

text \<open>
  The whitespace of \<^verbatim>\<open>str.split()\<close>, \<^verbatim>\<open>str.strip()\<close> and of the regular expression
  class \<^verbatim>\<open>\s\<close> on \<^verbatim>\<open>str\<close> patterns: the same 29 code points in all three.
\<close>

definition isspace :: "nat \<Rightarrow> bool" where
  "isspace c \<longleftrightarrow>
     (9 \<le> c \<and> c \<le> 13) \<or> (28 \<le> c \<and> c \<le> 32) \<or> c = 133 \<or> c = 160 \<or> c = 5760 \<or>
     (8192 \<le> c \<and> c \<le> 8202) \<or> c = 8232 \<or> c = 8233 \<or> c = 8239 \<or> c = 8287 \<or> c = 12288"

text \<open>
  The class \<^verbatim>\<open>\w\<close> on ASCII and the Cyrillic block U+0400..U+045F: digits, letters and
  the underscore.
\<close>

definition isword :: "nat \<Rightarrow> bool" where
  "isword c \<longleftrightarrow>
     (48 \<le> c \<and> c \<le> 57) \<or> (65 \<le> c \<and> c \<le> 90) \<or> c = 95 \<or> (97 \<le> c \<and> c \<le> 122) \<or>
     (1024 \<le> c \<and> c \<le> 1119)"

subsection \<open>Substring test and \<^verbatim>\<open>str.count\<close>\<close>

text \<open>\<^verbatim>\<open>sub in s\<close>: \<open>sub\<close> occurs in \<open>s\<close> as a contiguous substring.\<close>

fun py_in :: "pystr \<Rightarrow> pystr \<Rightarrow> bool" where
  "py_in sub [] = (sub = [])"
| "py_in sub (c # cs) = (prefix sub (c # cs) \<or> py_in sub cs)"

text \<open>
  \<^verbatim>\<open>s.count(sub)\<close>: the number of non-overlapping occurrences of \<open>sub\<close> in \<open>s\<close>, found
  scanning from the left; after an occurrence the scan resumes behind it. The empty
  string is counted between all code points.
\<close>

fun py_count :: "pystr \<Rightarrow> pystr \<Rightarrow> nat" where
  "py_count [] s = length s + 1"
| "py_count (k # ks) [] = 0"
| "py_count (k # ks) (c # cs) =
     (if prefix (k # ks) (c # cs) then 1 + py_count (k # ks) (drop (length ks) cs)
      else py_count (k # ks) cs)"

subsection \<open>\<^verbatim>\<open>str.split\<close> and \<^verbatim>\<open>str.strip\<close>\<close>

text \<open>
  \<^verbatim>\<open>s.split(sep)\<close> for a separator of one code point: the fragments between the
  separators, empty ones included; always at least one fragment.
\<close>

fun split_on :: "nat \<Rightarrow> pystr \<Rightarrow> pystr list" where
  "split_on sep [] = [[]]"
| "split_on sep (c # cs) =
     (if c = sep then [] # split_on sep cs
      else (case split_on sep cs of
              fragment # fragments \<Rightarrow> (c # fragment) # fragments
            | [] \<Rightarrow> [[c]]))"

text \<open>\<^verbatim>\<open>s.split()\<close>: the maximal runs of non-whitespace code points.\<close>

function py_split :: "pystr \<Rightarrow> pystr list" where
  "py_split [] = []"
| "py_split (c # cs) =
     (if isspace c then py_split cs
      else (c # takeWhile (\<lambda>x. \<not> isspace x) cs) # py_split (dropWhile (\<lambda>x. \<not> isspace x) cs))"
  by pat_completeness auto
termination
  by (relation "measure length") (auto simp: length_dropWhile_le le_imp_less_Suc)

definition strip :: "pystr \<Rightarrow> pystr" where
  "strip s = rev (dropWhile isspace (rev (dropWhile isspace s)))"

subsection \<open>Dictionaries with insertion order\<close>

text \<open>
  A \<^verbatim>\<open>defaultdict(int)\<close> is an association list in insertion order: \<^verbatim>\<open>d[k] += v\<close>
  adds to the entry of \<open>k\<close> where it stands, or appends the entry \<open>(k, 0 + v)\<close>.
\<close>

fun dict_add :: "'k \<Rightarrow> int \<Rightarrow> ('k \<times> int) list \<Rightarrow> ('k \<times> int) list" where
  "dict_add k v [] = [(k, 0 + v)]"
| "dict_add k v ((k', v') # d) =
     (if k' = k then (k', v' + v) # d else (k', v') # dict_add k v d)"

text \<open>
  \<^verbatim>\<open>max(d, key=d.get)\<close> on a non-empty dictionary walks the keys in insertion order and
  keeps the first key whose value is maximal: a later key replaces the current best only
  when its value is strictly greater.
\<close>

fun max_from :: "('k \<times> int) \<Rightarrow> ('k \<times> int) list \<Rightarrow> ('k \<times> int)" where
  "max_from best [] = best"
| "max_from best (x # xs) = max_from (if snd best < snd x then x else best) xs"

section \<open>The analyzer\<close>

subsection \<open>Regular expressions\<close>

text \<open>
  \<^verbatim>\<open>re.findall\<close> returns the non-overlapping matches found scanning from the left: at
  each position the pattern is tried; after a match the scan resumes behind it, otherwise
  at the next position.

  The bullet patterns \<^verbatim>\<open>\n\s*[-*]\s\<close> and \<^verbatim>\<open>\n\s*[-*\<bullet>]\s\<close>, with the set of markers as a
  parameter: a newline, the greedy run of whitespace behind it, a marker and one
  whitespace. Backtracking into the run cannot help, since a marker is no whitespace, so
  the pattern matches at a newline exactly when the first code point behind the run is a
  marker and a whitespace follows it.
\<close>

function findall_bullets :: "(nat \<Rightarrow> bool) \<Rightarrow> pystr \<Rightarrow> pystr list" where
  "findall_bullets marker [] = []"
| "findall_bullets marker (c # cs) =
     (if c = 10 then
        (case dropWhile isspace cs of
           m # s # rest \<Rightarrow>
             if marker m \<and> isspace s
             then (c # takeWhile isspace cs @ [m, s]) # findall_bullets marker rest
             else findall_bullets marker cs
         | _ \<Rightarrow> findall_bullets marker cs)
      else findall_bullets marker cs)"
  by pat_completeness auto
termination
proof (relation "measure (\<lambda>(marker, s). length s)", goal_cases)
  case 1
  then show ?case by simp
next
  case (2 marker c cs)
  then show ?case by simp
next
  case (3 marker c cs x21 x22)
  then show ?case by simp
next
  case (4 marker c cs m x22 s rest)
  have "length (dropWhile isspace cs) \<le> length cs" by (rule length_dropWhile_le)
  then show ?case using 4 by simp
next
  case (5 marker c cs m x22 s rest)
  then show ?case by simp
next
  case (6 marker c cs)
  then show ?case by simp
qed

definition style_marker :: "nat \<Rightarrow> bool" where
  "style_marker c \<longleftrightarrow> c = 45 \<or> c = 42"

definition engagement_marker :: "nat \<Rightarrow> bool" where
  "engagement_marker c \<longleftrightarrow> c = 45 \<or> c = 42 \<or> c = 8226"

text \<open>
  The token pattern \<^verbatim>\<open>\b[a-ya-z]+\b\<close> (the first range is U+0430..U+044F, the small
  Cyrillic letters a to ya): a word boundary, the greedy run of letters of the class and a
  word boundary. Every letter of the class is a word character, so the pattern matches at
  a letter exactly when the code point before it is no word character (or there is none)
  and the code point behind the whole run is no word character (or there is none); a
  shorter run never ends at a boundary. The first argument is the code point before the
  position, if any.
\<close>

definition isletter :: "nat \<Rightarrow> bool" where
  "isletter c \<longleftrightarrow> (1072 \<le> c \<and> c \<le> 1103) \<or> (97 \<le> c \<and> c \<le> 122)"

function findall_words :: "nat option \<Rightarrow> pystr \<Rightarrow> pystr list" where
  "findall_words prev [] = []"
| "findall_words prev (c # cs) =
     (if isletter c \<and>
         (case prev of None \<Rightarrow> True | Some p \<Rightarrow> \<not> isword p) \<and>
         (case dropWhile isletter cs of [] \<Rightarrow> True | n # _ \<Rightarrow> \<not> isword n)
      then (c # takeWhile isletter cs) # findall_words (Some (last (c # takeWhile isletter cs))) (dropWhile isletter cs)
      else findall_words (Some c) cs)"
  by pat_completeness auto
termination
  by (relation "measure (\<lambda>(prev, s). length s)") (auto simp: length_dropWhile_le le_imp_less_Suc)

subsection \<open>Sorting and counting\<close>

text \<open>
  \<^verbatim>\<open>sorted(items, key=lambda x: x[1], reverse=True)\<close>: a stable sort by descending value;
  entries of equal value keep their order. \<^const>\<open>sort_key\<close> is a stable insertion sort.
\<close>

definition sorted_desc :: "('k \<times> int) list \<Rightarrow> ('k \<times> int) list" where
  "sorted_desc items = sort_key (\<lambda>(k, v). - v) items"

text \<open>
  \<^verbatim>\<open>Counter(ws)\<close> counts the elements in the order of their first occurrence, and
  \<^verbatim>\<open>most_common(n)\<close> is the first \<open>n\<close> entries of the stable sort by descending count.
\<close>

definition Counter :: "'k list \<Rightarrow> ('k \<times> int) list" where
  "Counter ws = fold (\<lambda>w d. dict_add w 1 d) ws []"

definition most_common :: "nat \<Rightarrow> ('k \<times> int) list \<Rightarrow> ('k \<times> int) list" where
  "most_common n d = take n (sorted_desc d)"

subsection \<open>Numbers and errors\<close>

text \<open>
  Python's \<^verbatim>\<open>float\<close> is modelled by the rationals with exact arithmetic: the rounding
  error of the binary floating-point operations is not part of the model. The true
  division \<^verbatim>\<open>a / b\<close> raises \<^verbatim>\<open>ZeroDivisionError\<close> for a zero divisor. \<^verbatim>\<open>round(x, 1)\<close>
  rounds to the nearest tenth, a tie to the even neighbour.
\<close>

datatype py_error = ZeroDivisionError

definition truediv :: "rat \<Rightarrow> rat \<Rightarrow> py_error + rat" where
  "truediv a b = (if b = 0 then Inl ZeroDivisionError else Inr (a / b))"

definition round_half_even :: "rat \<Rightarrow> int" where
  "round_half_even x =
     (let f = \<lfloor>x\<rfloor>; d = x - of_int f
      in if d < 1 / 2 then f else if 1 / 2 < d then f + 1 else if even f then f else f + 1)"

definition py_round1 :: "rat \<Rightarrow> rat" where
  "py_round1 x = of_int (round_half_even (x * 10)) / 10"

definition programming :: pystr where
  "programming = [c_p, c_r, c_o, c_g, c_r, c_a, c_m, c_m, c_i, c_r, c_o, c_v, c_a, c_n, c_i, c_e]"

definition mathematics :: pystr where
  "mathematics = [c_m, c_a, c_t, c_e, c_m, c_a, c_t, c_i, c_k, c_a]"

definition physics :: pystr where
  "physics = [c_f, c_i, c_z, c_i, c_k, c_a]"

definition chemistry :: pystr where
  "chemistry = [c_kh, c_i, c_m, c_i, c_ya]"

definition biology :: pystr where
  "biology = [c_b, c_i, c_o, c_l, c_o, c_g, c_i, c_ya]"

definition history :: pystr where
  "history = [c_i, c_s, c_t, c_o, c_r, c_i, c_ya]"

definition languages :: pystr where
  "languages = [c_ya, c_z, c_y, c_k, c_i]"

definition visual :: pystr where
  "visual = [c_v, c_i, c_z, c_u, c_a, c_l, c_soft, c_n, c_y, c_j]"

definition auditory :: pystr where
  "auditory = [c_a, c_u, c_d, c_i, c_a, c_l, c_soft, c_n, c_y, c_j]"

definition practical :: pystr where
  "practical = [c_p, c_r, c_a, c_k, c_t, c_i, c_ch, c_e, c_s, c_k, c_i, c_j]"

definition general :: pystr where
  "general = [c_o, c_b, c_shch, c_i, c_j]"

definition subject_keywords :: "(pystr \<times> pystr list) list" where
  "subject_keywords =
  [(programming,
      [[c_k, c_o, c_d],
       [c_f, c_u, c_n, c_k, c_ts, c_i, c_ya],
       [c_p, c_e, c_r, c_e, c_m, c_e, c_n, c_n, c_a, c_ya],
       [c_k, c_l, c_a, c_s, c_s],
       [c_o, c_b, c_hard, c_e, c_k, c_t],
       [c_a, c_l, c_g, c_o, c_r, c_i, c_t, c_m],
       [c_p, c_r, c_o, c_g, c_r, c_a, c_m, c_m, c_a]]),
   (mathematics,
      [[c_u, c_r, c_a, c_v, c_n, c_e, c_n, c_i, c_e],
       [c_f, c_o, c_r, c_m, c_u, c_l, c_a],
       [c_t, c_e, c_o, c_r, c_e, c_m, c_a],
       [c_d, c_o, c_k, c_a, c_z, c_a, c_t, c_e, c_l, c_soft, c_s, c_t, c_v, c_o],
       [c_f, c_u, c_n, c_k, c_ts, c_i, c_ya],
       [c_p, c_r, c_o, c_i, c_z, c_v, c_o, c_d, c_n, c_a, c_ya]]),
   (physics,
      [[c_eh, c_n, c_e, c_r, c_g, c_i, c_ya],
       [c_s, c_i, c_l, c_a],
       [c_s, c_k, c_o, c_r, c_o, c_s, c_t, c_soft],
       [c_d, c_v, c_i, c_zh, c_e, c_n, c_i, c_e],
       [c_t, c_e, c_m, c_p, c_e, c_r, c_a, c_t, c_u, c_r, c_a],
       [c_v, c_o, c_l, c_n, c_a]]),
   (chemistry,
      [[c_r, c_e, c_a, c_k, c_ts, c_i, c_ya],
       [c_eh, c_l, c_e, c_m, c_e, c_n, c_t],
       [c_m, c_o, c_l, c_e, c_k, c_u, c_l, c_a],
       [c_a, c_t, c_o, c_m],
       [c_s, c_o, c_e, c_d, c_i, c_n, c_e, c_n, c_i, c_e],
       [c_v, c_e, c_shch, c_e, c_s, c_t, c_v, c_o]]),
   (biology,
      [[c_k, c_l, c_e, c_t, c_k, c_a],
       [c_o, c_r, c_g, c_a, c_n, c_i, c_z, c_m],
       [c_eh, c_v, c_o, c_l, c_yu, c_ts, c_i, c_ya],
       [c_g, c_e, c_n],
       [c_b, c_e, c_l, c_o, c_k],
       [c_t, c_k, c_a, c_n, c_soft]]),
   (history,
      [[c_v, c_o, c_j, c_n, c_a],
       [c_r, c_e, c_v, c_o, c_l, c_yu, c_ts, c_i, c_ya],
       [c_i, c_m, c_p, c_e, c_r, c_i, c_ya],
       [c_g, c_o, c_s, c_u, c_d, c_a, c_r, c_s, c_t, c_v, c_o],
       [c_k, c_u, c_l, c_soft, c_t, c_u, c_r, c_a],
       [c_s, c_o, c_b, c_y, c_t, c_i, c_e]]),
   (languages,
      [[c_g, c_r, c_a, c_m, c_m, c_a, c_t, c_i, c_k, c_a],
       [c_s, c_l, c_o, c_v, c_o],
       [c_p, c_r, c_e, c_d, c_l, c_o, c_zh, c_e, c_n, c_i, c_e],
       [c_g, c_l, c_a, c_g, c_o, c_l],
       [c_s, c_u, c_shch, c_e, c_s, c_t, c_v, c_i, c_t, c_e, c_l, c_soft, c_n, c_o, c_e],
       [c_t, c_e, c_k, c_s, c_t]])]"

definition learning_styles :: "(pystr \<times> pystr list) list" where
  "learning_styles =
  [(visual,
      [[c_d, c_i, c_a, c_g, c_r, c_a, c_m, c_m, c_a],
       [c_s, c_kh, c_e, c_m, c_a],
       [c_g, c_r, c_a, c_f, c_i, c_k],
       [c_t, c_a, c_b, c_l, c_i, c_ts, c_a],
       [c_r, c_i, c_s, c_u, c_n, c_o, c_k],
       [c_i, c_z, c_o, c_b, c_r, c_a, c_zh, c_e, c_n, c_i, c_e]]),
   (auditory,
      [[c_o, c_b, c_hard, c_ya, c_s, c_n, c_e, c_n, c_i, c_e],
       [c_l, c_e, c_k, c_ts, c_i, c_ya],
       [c_d, c_i, c_s, c_k, c_u, c_s, c_s, c_i, c_ya],
       [c_o, c_b, c_s, c_u, c_zh, c_d, c_e, c_n, c_i, c_e],
       [c_d, c_i, c_a, c_l, c_o, c_g]]),
   (practical,
      [[c_u, c_p, c_r, c_a, c_zh, c_n, c_e, c_n, c_i, c_e],
       [c_p, c_r, c_a, c_k, c_t, c_i, c_k, c_a],
       [c_z, c_a, c_d, c_a, c_ch, c_a],
       [c_p, c_r, c_o, c_e, c_k, c_t],
       [c_eh, c_k, c_s, c_p, c_e, c_r, c_i, c_m, c_e, c_n, c_t],
       [c_p, c_r, c_i, c_m, c_e, c_n, c_e, c_n, c_i, c_e]])]"
subsection \<open>\<^verbatim>\<open>detect_subject\<close>\<close>

text \<open>
  The two loops of \<^verbatim>\<open>detect_subject\<close>: for every subject and every keyword of it that
  occurs in the lowercased text, the subject's score grows by the keyword's count.
\<close>

definition score_keywords :: "pystr \<Rightarrow> pystr \<Rightarrow> pystr list \<Rightarrow> (pystr \<times> int) list \<Rightarrow> (pystr \<times> int) list" where
  "score_keywords text_lower subject keywords scores =
     fold (\<lambda>keyword sc.
             if py_in keyword text_lower then dict_add subject (int (py_count keyword text_lower)) sc
             else sc)
          keywords scores"

definition subject_scores :: "pystr \<Rightarrow> (pystr \<times> int) list" where
  "subject_scores text_lower =
     fold (\<lambda>(subject, keywords) sc. score_keywords text_lower subject keywords sc)
          subject_keywords []"

definition detect_subject :: "pystr \<Rightarrow> pystr" where
  "detect_subject text =
     (case subject_scores (lower text) of
        [] \<Rightarrow> general
      | x # xs \<Rightarrow> fst (max_from x xs))"

subsection \<open>\<^verbatim>\<open>suggest_learning_style\<close>\<close>

definition code_fence :: pystr where
  "code_fence = [96, 96, 96]"

definition def_marker :: pystr where
  "def_marker = asc ''def ''"

definition style_keywords :: "pystr \<Rightarrow> pystr \<Rightarrow> pystr list \<Rightarrow> (pystr \<times> int) list \<Rightarrow> (pystr \<times> int) list" where
  "style_keywords text_lower style keywords scores =
     fold (\<lambda>keyword sc. if py_in keyword text_lower then dict_add style 1 sc else sc)
          keywords scores"

definition style_scores :: "pystr \<Rightarrow> (pystr \<times> int) list" where
  "style_scores text =
     (let text_lower = lower text;
          scores = fold (\<lambda>(style, keywords) sc. style_keywords text_lower style keywords sc)
                        learning_styles [];
          scores = (if 0 < py_count code_fence text \<or> 0 < py_count def_marker text
                    then dict_add practical 5 scores else scores);
          scores = (if 3 < length (findall_bullets style_marker text)
                    then dict_add visual 3 scores else scores)
      in scores)"

definition suggest_learning_style :: "pystr \<Rightarrow> pystr list" where
  "suggest_learning_style text =
     (let suggested_styles = sorted_desc (style_scores text)
      in if suggested_styles = [] then [practical, visual, auditory]
         else map fst (take 2 suggested_styles))"

subsection \<open>\<^verbatim>\<open>calculate_readability\<close>\<close>

definition sentences_of :: "pystr \<Rightarrow> pystr list" where
  "sentences_of text = filter (\<lambda>s. strip s \<noteq> []) (split_on 46 text)"

definition calculate_readability :: "pystr \<Rightarrow> py_error + rat" where
  "calculate_readability text =
     (let sentences = sentences_of text;
          words = py_split text
      in if sentences = [] \<or> words = [] then Inr 50
         else
           case truediv (of_nat (length words)) (of_nat (length sentences)) of
             Inl e \<Rightarrow> Inl e
           | Inr avg_sentence_length \<Rightarrow>
               (case truediv (of_nat (sum_list (map length words))) (of_nat (length words)) of
                  Inl e \<Rightarrow> Inl e
                | Inr avg_word_length \<Rightarrow>
                    let readability = 206835 / 1000 - 1015 / 1000 * avg_sentence_length
                                        - 846 / 10 * (avg_word_length / 5);
                        readability = max 0 (min 100 readability)
                    in Inr (py_round1 readability)))"

subsection \<open>\<^verbatim>\<open>generate_flashcards\<close>\<close>

record flashcard =
  fc_front :: pystr
  fc_back :: pystr
  fc_keyword :: pystr

definition what_is :: pystr where
  "what_is = [C_ch, c_t, c_o] @ asc '' '' @ [c_t, c_a, c_k, c_o, c_e] @ asc '' ''"

text \<open>The inner loop over the sentences, left at the first sentence with the keyword.\<close>

fun add_card :: "pystr \<Rightarrow> pystr list \<Rightarrow> flashcard list \<Rightarrow> flashcard list" where
  "add_card kw [] flashcards = flashcards"
| "add_card kw (sentence # rest) flashcards =
     (if py_in (lower kw) (lower sentence)
      then flashcards @ [\<lparr>fc_front = what_is @ kw @ [63], fc_back = sentence, fc_keyword = kw\<rparr>]
      else add_card kw rest flashcards)"

definition generate_flashcards :: "pystr \<Rightarrow> pystr list \<Rightarrow> flashcard list" where
  "generate_flashcards text keywords =
     (let sentences = map strip (filter (\<lambda>s. strip s \<noteq> []) (split_on 46 text))
      in fold (\<lambda>kw flashcards. add_card kw sentences flashcards) (take 5 keywords) [])"

subsection \<open>\<^verbatim>\<open>identify_prerequisites\<close>\<close>

definition prerequisites_map :: "(pystr \<times> pystr list) list" where
  "prerequisites_map =
  [(programming,
      [[C_b, c_a, c_z, c_o, c_v, c_a, c_ya] @ asc '' '' @ [c_k, c_o, c_m, c_p, c_soft, c_yu, c_t, c_e, c_r, c_n, c_a, c_ya] @ asc '' '' @ [c_g, c_r, c_a, c_m, c_o, c_t, c_n, c_o, c_s, c_t, c_soft],
       [C_l, c_o, c_g, c_i, c_ch, c_e, c_s, c_k, c_o, c_e] @ asc '' '' @ [c_m, c_y, c_sh, c_l, c_e, c_n, c_i, c_e],
       [C_a, c_n, c_g, c_l, c_i, c_j, c_s, c_k, c_i, c_j] @ asc '' '' @ [c_ya, c_z, c_y, c_k] @ asc '' ('' @ [c_b, c_a, c_z, c_o, c_v, c_y, c_j] @ asc '')'']),
   (mathematics,
      [[C_a, c_r, c_i, c_f, c_m, c_e, c_t, c_i, c_k, c_a],
       [C_b, c_a, c_z, c_o, c_v, c_a, c_ya] @ asc '' '' @ [c_a, c_l, c_g, c_e, c_b, c_r, c_a],
       [C_l, c_o, c_g, c_i, c_ch, c_e, c_s, c_k, c_o, c_e] @ asc '' '' @ [c_m, c_y, c_sh, c_l, c_e, c_n, c_i, c_e]]),
   (physics,
      [[C_m, c_a, c_t, c_e, c_m, c_a, c_t, c_i, c_k, c_a] @ asc '' ('' @ [c_a, c_l, c_g, c_e, c_b, c_r, c_a] @ asc '')'',
       [C_b, c_a, c_z, c_o, c_v, c_y, c_e] @ asc '' '' @ [c_p, c_o, c_n, c_ya, c_t, c_i, c_ya] @ asc '' '' @ [c_o] @ asc '' '' @ [c_p, c_r, c_i, c_r, c_o, c_d, c_e]]),
   (chemistry,
      [[C_m, c_a, c_t, c_e, c_m, c_a, c_t, c_i, c_k, c_a],
       [C_b, c_a, c_z, c_o, c_v, c_y, c_e] @ asc '' '' @ [c_p, c_o, c_n, c_ya, c_t, c_i, c_ya] @ asc '' '' @ [c_o] @ asc '' '' @ [c_v, c_e, c_shch, c_e, c_s, c_t, c_v, c_a, c_kh]]),
   (biology,
      [[C_o, c_b, c_shch, c_i, c_e] @ asc '' '' @ [c_z, c_n, c_a, c_n, c_i, c_ya] @ asc '' '' @ [c_o] @ asc '' '' @ [c_zh, c_i, c_v, c_y, c_kh] @ asc '' '' @ [c_o, c_r, c_g, c_a, c_n, c_i, c_z, c_m, c_a, c_kh]]),
   (history,
      [[C_kh, c_r, c_o, c_n, c_o, c_l, c_o, c_g, c_i, c_ch, c_e, c_s, c_k, c_o, c_e] @ asc '' '' @ [c_m, c_y, c_sh, c_l, c_e, c_n, c_i, c_e],
       [C_g, c_e, c_o, c_g, c_r, c_a, c_f, c_i, c_ya] @ asc '' ('' @ [c_b, c_a, c_z, c_o, c_v, c_a, c_ya] @ asc '')'']),
   (languages,
      [[C_r, c_o, c_d, c_n, c_o, c_j] @ asc '' '' @ [c_ya, c_z, c_y, c_k] @ asc '' ('' @ [c_kh, c_o, c_r, c_o, c_sh, c_e, c_e] @ asc '' '' @ [c_z, c_n, c_a, c_n, c_i, c_e] @ asc '')'',
       [C_b, c_a, c_z, c_o, c_v, c_a, c_ya] @ asc '' '' @ [c_g, c_r, c_a, c_m, c_m, c_a, c_t, c_i, c_k, c_a]])]"

definition default_prerequisites :: "pystr list" where
  "default_prerequisites =
      [[C_b, c_a, c_z, c_o, c_v, c_a, c_ya] @ asc '' '' @ [c_g, c_r, c_a, c_m, c_o, c_t, c_n, c_o, c_s, c_t, c_soft],
       [C_zh, c_e, c_l, c_a, c_n, c_i, c_e] @ asc '' '' @ [c_u, c_ch, c_i, c_t, c_soft, c_s, c_ya]]"

definition advanced_keywords :: "pystr list" where
  "advanced_keywords =
      [[c_p, c_r, c_o, c_d, c_v, c_i, c_n, c_u, c_t, c_y, c_j],
       [c_s, c_l, c_o, c_zh, c_n, c_y, c_j],
       asc ''advanced'',
       [c_k, c_o, c_m, c_p, c_l, c_e, c_k, c_s, c_n, c_y, c_j],
       [c_i, c_n, c_t, c_e, c_g, c_r, c_i, c_r, c_o, c_v, c_a, c_n, c_n, c_y, c_j]]"

definition intermediate_level :: pystr where
  "intermediate_level = [C_s, c_r, c_e, c_d, c_n, c_i, c_j] @ asc '' '' @ [c_u, c_r, c_o, c_v, c_e, c_n, c_soft] @ asc '' '' @ [c_z, c_n, c_a, c_n, c_i, c_j] @ asc '' '' @ [c_v] @ asc '' ''"

definition identify_prerequisites :: "pystr \<Rightarrow> pystr \<Rightarrow> pystr list" where
  "identify_prerequisites text subject =
     (let base_prerequisites =
            (case map_of prerequisites_map subject of
               Some ps \<Rightarrow> ps
             | None \<Rightarrow> default_prerequisites);
          text_lower = lower text
      in if list_ex (\<lambda>kw. py_in kw text_lower) advanced_keywords
         then (intermediate_level @ subject) # base_prerequisites
         else base_prerequisites)"

subsection \<open>\<^verbatim>\<open>calculate_engagement_score\<close>\<close>

definition engaging_words :: "pystr list" where
  "engaging_words =
      [[c_i, c_n, c_t, c_e, c_r, c_e, c_s, c_n, c_o],
       [c_v, c_a, c_zh, c_n, c_o],
       [c_u, c_d, c_i, c_v, c_i, c_t, c_e, c_l, c_soft, c_n, c_o],
       [c_p, c_r, c_e, c_d, c_s, c_t, c_a, c_v, c_soft, c_t, c_e],
       [c_d, c_a, c_v, c_a, c_j, c_t, c_e],
       [c_p, c_o, c_ch, c_e, c_m, c_u],
       [c_k, c_a, c_k]]"

definition for_example :: pystr where
  "for_example = [c_n, c_a, c_p, c_r, c_i, c_m, c_e, c_r]"

definition example :: pystr where
  "example = [c_p, c_r, c_i, c_m, c_e, c_r]"

definition calculate_engagement_score :: "pystr \<Rightarrow> py_error + int" where
  "calculate_engagement_score text =
     (let score = 50;
          text_lower = lower text;
          score = score + sum_list (map (\<lambda>word. 2) (filter (\<lambda>word. py_in word text_lower) engaging_words));
          score = (if py_in for_example text_lower \<or> py_in example text_lower
                   then score + 10 else score);
          score = score + int (py_count [63] text) * 3;
          score = score + int (length (findall_bullets engagement_marker text)) * 2;
          sentences = split_on 46 text
      in if sentences \<noteq> [] then
           (case truediv (of_nat (sum_list (map (\<lambda>s. length (py_split s)) sentences)))
                         (of_nat (length sentences)) of
              Inl e \<Rightarrow> Inl e
            | Inr avg_length \<Rightarrow>
                let score = (if 25 < avg_length then score - 10 else score)
                in Inr (max 0 (min 100 score)))
         else Inr (max 0 (min 100 score)))"

subsection \<open>\<^verbatim>\<open>generate_study_notes_template\<close>\<close>

record notes_template =
  nt_title :: pystr
  nt_date :: pystr
  nt_key_points :: "pystr list"
  nt_keywords_to_remember :: "pystr list"
  nt_questions_to_answer :: "pystr list"
  nt_summary_space :: pystr
  nt_reflection :: pystr

definition generate_study_notes_template :: "pystr \<Rightarrow> pystr list \<Rightarrow> notes_template" where
  "generate_study_notes_template text keywords =
     \<lparr>nt_title = [C_k, c_o, c_n, c_s, c_p, c_e, c_k, c_t] @ asc '' '' @ [c_p, c_o] @ asc '' '' @ [c_m, c_a, c_t, c_e, c_r, c_i, c_a, c_l, c_u],
      nt_date = [C_d, c_a, c_t, c_a] @ asc '' '' @ [c_i, c_z, c_u, c_ch, c_e, c_n, c_i, c_ya] @ asc '': __________'',
      nt_key_points =
        [asc ''1. '' @ replicate 35 95,
         asc ''2. '' @ replicate 35 95,
         asc ''3. '' @ replicate 35 95,
         asc ''4. '' @ replicate 35 95,
         asc ''5. '' @ replicate 35 95],
      nt_keywords_to_remember = take 8 keywords,
      nt_questions_to_answer =
        [asc ''Q: '' @ [C_k, c_a, c_k, c_o, c_v, c_a] @ asc '' '' @ [c_o, c_s, c_n, c_o, c_v, c_n, c_a, c_ya] @ asc '' '' @ [c_i, c_d, c_e, c_ya] @ asc ''?'',
         asc ''A: '' @ replicate 35 95,
         [],
         asc ''Q: '' @ [C_k, c_a, c_k] @ asc '' '' @ [c_eh, c_t, c_o] @ asc '' '' @ [c_p, c_r, c_i, c_m, c_e, c_n, c_ya, c_e, c_t, c_s, c_ya] @ asc '' '' @ [c_n, c_a] @ asc '' '' @ [c_p, c_r, c_a, c_k, c_t, c_i, c_k, c_e] @ asc ''?'',
         asc ''A: '' @ replicate 35 95,
         [],
         asc ''Q: '' @ [C_s] @ asc '' '' @ [c_ch, c_e, c_m] @ asc '' '' @ [c_eh, c_t, c_o] @ asc '' '' @ [c_s, c_v, c_ya, c_z, c_a, c_n, c_o] @ asc ''?'',
         asc ''A: '' @ replicate 35 95],
      nt_summary_space = [C_k, c_r, c_a, c_t, c_k, c_o, c_e] @ asc '' '' @ [c_r, c_e, c_z, c_yu, c_m, c_e] @ asc '' '' @ [c_s, c_v, c_o, c_i, c_m, c_i] @ asc '' '' @ [c_s, c_l, c_o, c_v, c_a, c_m, c_i] @ asc '':'' @ [10] @ replicate 50 95 @ replicate 5 10,
      nt_reflection = [C_ch, c_t, c_o] @ asc '' '' @ [c_ya] @ asc '' '' @ [c_u, c_z, c_n, c_a, c_l] @ asc '' '' @ [c_n, c_o, c_v, c_o, c_g, c_o] @ asc ''?'' @ [10] @ replicate 50 95 @ replicate 3 10\<rparr>"

subsection \<open>\<^verbatim>\<open>_interpret_readability\<close>\<close>

record difficulty =
  in_level :: pystr
  in_description :: pystr
  in_recommendation :: pystr

definition level_easy :: pystr where
  "level_easy = [C_l, c_yo, c_g, c_k, c_i, c_j]"

definition level_medium :: pystr where
  "level_medium = [C_s, c_r, c_e, c_d, c_n, c_i, c_j]"

definition level_hard :: pystr where
  "level_hard = [C_s, c_l, c_o, c_zh, c_n, c_y, c_j]"

definition interpret_readability :: "rat \<Rightarrow> difficulty" where
  "interpret_readability score =
     (if 70 \<le> score then
        \<lparr>in_level = level_easy,
         in_description = [C_t, c_e, c_k, c_s, c_t] @ asc '' '' @ [c_l, c_e, c_g, c_k, c_o] @ asc '' '' @ [c_ch, c_i, c_t, c_a, c_e, c_t, c_s, c_ya] @ asc '' '' @ [c_i] @ asc '' '' @ [c_p, c_o, c_n, c_i, c_m, c_a, c_e, c_t, c_s, c_ya],
         in_recommendation = [C_p, c_o, c_d, c_kh, c_o, c_d, c_i, c_t] @ asc '' '' @ [c_d, c_l, c_ya] @ asc '' '' @ [c_s, c_a, c_m, c_o, c_s, c_t, c_o, c_ya, c_t, c_e, c_l, c_soft, c_n, c_o, c_g, c_o] @ asc '' '' @ [c_i, c_z, c_u, c_ch, c_e, c_n, c_i, c_ya]\<rparr>
      else if 50 \<le> score then
        \<lparr>in_level = level_medium,
         in_description = [C_t, c_r, c_e, c_b, c_u, c_e, c_t] @ asc '' '' @ [c_v, c_n, c_i, c_m, c_a, c_n, c_i, c_ya] @ asc '' '' @ [c_i] @ asc '' '' @ [c_k, c_o, c_n, c_ts, c_e, c_n, c_t, c_r, c_a, c_ts, c_i, c_i],
         in_recommendation = [C_d, c_e, c_l, c_a, c_j, c_t, c_e] @ asc '' '' @ [c_z, c_a, c_m, c_e, c_t, c_k, c_i] @ asc '' '' @ [c_p, c_o] @ asc '' '' @ [c_kh, c_o, c_d, c_u] @ asc '' '' @ [c_ch, c_t, c_e, c_n, c_i, c_ya]\<rparr>
      else
        \<lparr>in_level = level_hard,
         in_description = [C_s, c_l, c_o, c_zh, c_n, c_y, c_j] @ asc '' '' @ [c_t, c_e, c_k, c_s, c_t] @ asc '', '' @ [c_t, c_r, c_e, c_b, c_u, c_e, c_t] @ asc '' '' @ [c_g, c_l, c_u, c_b, c_o, c_k, c_o, c_g, c_o] @ asc '' '' @ [c_i, c_z, c_u, c_ch, c_e, c_n, c_i, c_ya],
         in_recommendation = [C_ch, c_i, c_t, c_a, c_j, c_t, c_e] @ asc '' '' @ [c_p, c_o] @ asc '' '' @ [c_ch, c_a, c_s, c_t, c_ya, c_m] @ asc '', '' @ [c_i, c_s, c_p, c_o, c_l, c_soft, c_z, c_u, c_j, c_t, c_e] @ asc '' '' @ [c_d, c_o, c_p, c_o, c_l, c_n, c_i, c_t, c_e, c_l, c_soft, c_n, c_y, c_e] @ asc '' '' @ [c_i, c_s, c_t, c_o, c_ch, c_n, c_i, c_k, c_i]\<rparr>)"

subsection \<open>\<^verbatim>\<open>analyze_comprehensive\<close>\<close>

record basic_stats =
  st_word_count :: nat
  st_sentence_count :: nat
  st_unique_words :: nat
  st_avg_sentence_length :: rat

record report =
  rep_basic_stats :: basic_stats
  rep_subject :: pystr
  rep_keywords :: "pystr list"
  rep_learning_styles :: "pystr list"
  rep_readability_score :: rat
  rep_engagement_score :: int
  rep_prerequisites :: "pystr list"
  rep_flashcards :: "flashcard list"
  rep_notes_template :: notes_template
  rep_difficulty_interpretation :: difficulty

definition stop_words :: "pystr list" where
  "stop_words =
      [[c_eh, c_t, c_o],
       [c_k, c_a, c_k],
       [c_ch, c_t, c_o],
       [c_d, c_l, c_ya],
       [c_i, c_l, c_i],
       [c_k, c_o, c_t, c_o, c_r, c_y, c_j],
       asc ''the'',
       asc ''is'',
       asc ''and'',
       asc ''or'']"

text \<open>The keyword extraction of \<^verbatim>\<open>analyze_comprehensive\<close>: its first three statements.\<close>

definition extract_keywords :: "pystr \<Rightarrow> pystr list" where
  "extract_keywords text =
     (let words = findall_words None (lower text);
          filtered_words = filter (\<lambda>w. w \<notin> set stop_words \<and> 3 < length w) words
      in map fst (most_common 10 (Counter filtered_words)))"

definition analyze_comprehensive :: "pystr \<Rightarrow> py_error + report" where
  "analyze_comprehensive text =
     (let words = findall_words None (lower text);
          sentences = sentences_of text;
          keywords = extract_keywords text;
          subject = detect_subject text;
          learning_styles = suggest_learning_style text
      in case calculate_readability text of
           Inl e \<Rightarrow> Inl e
         | Inr readability \<Rightarrow>
             (case calculate_engagement_score text of
                Inl e \<Rightarrow> Inl e
              | Inr engagement \<Rightarrow>
                  let flashcards = generate_flashcards text keywords;
                      prerequisites = identify_prerequisites text subject;
                      template = generate_study_notes_template text keywords
                  in case truediv (of_nat (length words)) (of_nat (max (length sentences) 1)) of
                       Inl e \<Rightarrow> Inl e
                     | Inr avg \<Rightarrow>
                         Inr \<lparr>rep_basic_stats =
                                \<lparr>st_word_count = length words,
                                 st_sentence_count = length sentences,
                                 st_unique_words = card (set words),
                                 st_avg_sentence_length = avg\<rparr>,
                              rep_subject = subject,
                              rep_keywords = keywords,
                              rep_learning_styles = learning_styles,
                              rep_readability_score = readability,
                              rep_engagement_score = engagement,
                              rep_prerequisites = prerequisites,
                              rep_flashcards = flashcards,
                              rep_notes_template = template,
                              rep_difficulty_interpretation = interpret_readability readability\<rparr>))"

section \<open>Closed forms of the loops\<close>

text \<open>
  What the loops of \<^verbatim>\<open>detect_subject\<close> accumulate for one subject, in terms of the
  operations the code calls, and the selection the code makes on these totals. They serve
  the proofs only.
\<close>

definition subject_total :: "pystr \<Rightarrow> pystr list \<Rightarrow> int" where
  "subject_total text_lower keywords = (\<Sum>kw\<leftarrow>keywords. int (py_count kw text_lower))"

definition totals_of :: "(pystr \<times> pystr list) list \<Rightarrow> pystr \<Rightarrow> (pystr \<times> int) list" where
  "totals_of lexicon text_lower =
     map (\<lambda>(subject, keywords). (subject, subject_total text_lower keywords)) lexicon"

definition detect_subject_closed :: "pystr \<Rightarrow> pystr" where
  "detect_subject_closed text =
     (let text_lower = lower text;
          totals = totals_of subject_keywords text_lower;
          best = Max (set (map snd totals))
      in if \<forall>(subject, keywords) \<in> set subject_keywords. \<forall>kw \<in> set keywords. \<not> py_in kw text_lower
         then general
         else case find (\<lambda>(subject, score). score = best) totals of
                Some (subject, score) \<Rightarrow> subject
              | None \<Rightarrow> general)"

section \<open>Specification-side definitions\<close>

text \<open>
  Occurrences of a keyword in a text, independent of the string operations of the code:
  \<open>kw\<close> occurs in \<open>s\<close> at position \<open>i\<close> when \<open>s\<close> continues with \<open>kw\<close> from there.
  \<open>occurrences\<close> counts all positions, so occurrences that overlap are all counted.
  \<open>disjoint_occurrences\<close> counts from the left only the occurrences that begin behind the
  end of the occurrence counted before.
\<close>

definition occurs_at :: "pystr \<Rightarrow> pystr \<Rightarrow> nat \<Rightarrow> bool" where
  "occurs_at kw s i \<longleftrightarrow> prefix kw (drop i s)"

definition positions :: "pystr \<Rightarrow> pystr \<Rightarrow> nat list" where
  "positions kw s = filter (occurs_at kw s) [0..<length s]"

definition occurrences :: "pystr \<Rightarrow> pystr \<Rightarrow> nat" where
  "occurrences kw s = length (positions kw s)"

fun leftmost_disjoint :: "nat \<Rightarrow> nat \<Rightarrow> nat list \<Rightarrow> nat" where
  "leftmost_disjoint len start [] = 0"
| "leftmost_disjoint len start (p # ps) =
     (if start \<le> p then 1 + leftmost_disjoint len (p + len) ps
      else leftmost_disjoint len start ps)"

definition disjoint_occurrences :: "pystr \<Rightarrow> pystr \<Rightarrow> nat" where
  "disjoint_occurrences kw s = leftmost_disjoint (length kw) 0 (positions kw s)"

text \<open>
  The subject of a lowercased text as the specification words it, for a given way \<open>cnt\<close>
  of counting occurrences: every subject is scored by the sum of the counts of its
  keywords, the subject with the greatest total wins, the first one in the order of the
  lexicon among equals, and a text in which no keyword occurs is \<open>general\<close>.
\<close>

definition argmax_subject :: "(pystr \<Rightarrow> pystr \<Rightarrow> nat) \<Rightarrow> pystr \<Rightarrow> pystr" where
  "argmax_subject cnt text_lower =
     (let totals = map (\<lambda>(subject, keywords). (subject, \<Sum>kw\<leftarrow>keywords. int (cnt kw text_lower)))
                       subject_keywords;
          best = Max (set (map snd totals))
      in if \<forall>(subject, keywords) \<in> set subject_keywords. \<forall>kw \<in> set keywords. cnt kw text_lower = 0
         then general
         else case find (\<lambda>(subject, score). score = best) totals of
                Some (subject, score) \<Rightarrow> subject
              | None \<Rightarrow> general)"

text \<open>
  The example of the specification: in the lowercased text the words for function, code
  and algorithm occur five times each, and no other keyword of any subject occurs.
\<close>

definition word_function :: pystr where
  "word_function = [c_f, c_u, c_n, c_k, c_ts, c_i, c_ya]"

definition word_code :: pystr where
  "word_code = [c_k, c_o, c_d]"

definition word_algorithm :: pystr where
  "word_algorithm = [c_a, c_l, c_g, c_o, c_r, c_i, c_t, c_m]"

definition example_words_only :: "pystr \<Rightarrow> bool" where
  "example_words_only text_lower \<longleftrightarrow>
     disjoint_occurrences word_function text_lower = 5 \<and>
     disjoint_occurrences word_code text_lower = 5 \<and>
     disjoint_occurrences word_algorithm text_lower = 5 \<and>
     (\<forall>(subject, keywords) \<in> set subject_keywords. \<forall>kw \<in> set keywords.
        kw \<notin> {word_function, word_code, word_algorithm} \<longrightarrow> disjoint_occurrences kw text_lower = 0)"

text \<open>
  Test texts. \<open>c1_text\<close> is the example in mixed case (five times the three words, the
  first and the third capitalised, the second in capitals) and \<open>c1_lowered\<close> its lowercase
  form. \<open>c1_unequal\<close> holds the word for code once, in capitals, and the word for wave
  twice. \<open>c1_overlap\<close> holds the word for text in three overlapping occurrences, of which
  two are disjoint, and the word for code twice.
\<close>

definition c1_text :: pystr where
  "c1_text =
     [C_f, c_u, c_n, c_k, c_ts, c_i, c_ya, 32, C_k, C_o, C_d, 32, C_a, c_l, c_g, c_o, c_r,
     c_i, c_t, c_m, 32, C_f, c_u, c_n, c_k, c_ts, c_i, c_ya, 32, C_k, C_o, C_d, 32, C_a, c_l,
     c_g, c_o, c_r, c_i, c_t, c_m, 32, C_f, c_u, c_n, c_k, c_ts, c_i, c_ya, 32, C_k, C_o,
     C_d, 32, C_a, c_l, c_g, c_o, c_r, c_i, c_t, c_m, 32, C_f, c_u, c_n, c_k, c_ts, c_i,
     c_ya, 32, C_k, C_o, C_d, 32, C_a, c_l, c_g, c_o, c_r, c_i, c_t, c_m, 32, C_f, c_u, c_n,
     c_k, c_ts, c_i, c_ya, 32, C_k, C_o, C_d, 32, C_a, c_l, c_g, c_o, c_r, c_i, c_t, c_m, 32]"

definition c1_lowered :: pystr where
  "c1_lowered =
     [c_f, c_u, c_n, c_k, c_ts, c_i, c_ya, 32, c_k, c_o, c_d, 32, c_a, c_l, c_g, c_o, c_r,
     c_i, c_t, c_m, 32, c_f, c_u, c_n, c_k, c_ts, c_i, c_ya, 32, c_k, c_o, c_d, 32, c_a, c_l,
     c_g, c_o, c_r, c_i, c_t, c_m, 32, c_f, c_u, c_n, c_k, c_ts, c_i, c_ya, 32, c_k, c_o,
     c_d, 32, c_a, c_l, c_g, c_o, c_r, c_i, c_t, c_m, 32, c_f, c_u, c_n, c_k, c_ts, c_i,
     c_ya, 32, c_k, c_o, c_d, 32, c_a, c_l, c_g, c_o, c_r, c_i, c_t, c_m, 32, c_f, c_u, c_n,
     c_k, c_ts, c_i, c_ya, 32, c_k, c_o, c_d, 32, c_a, c_l, c_g, c_o, c_r, c_i, c_t, c_m, 32]"

definition c1_unequal :: pystr where
  "c1_unequal = [C_k, C_o, C_d, 32, C_v, c_o, c_l, c_n, c_a, 32, C_v, C_o, C_l, C_n, C_a]"

definition c1_overlap :: pystr where
  "c1_overlap = [c_t, c_e, c_k, c_s, c_t, c_e, c_k, c_s, c_t, c_e, c_k, c_s, c_t, 32, c_k, c_o, c_d, 32,
       c_k, c_o, c_d]"

text \<open>
  The readability formula of the specification, on the number of words, the number of
  sentences and the sum of the word lengths, and the clamp to the scale 0 to 100.
\<close>

definition readability_formula :: "nat \<Rightarrow> nat \<Rightarrow> nat \<Rightarrow> rat" where
  "readability_formula word_count sentence_count letters =
     206835 / 1000 - 1015 / 1000 * (of_nat word_count / of_nat sentence_count)
       - 846 / 10 * ((of_nat letters / of_nat word_count) / 5)"

definition clamp100 :: "rat \<Rightarrow> rat" where
  "clamp100 x = max 0 (min 100 x)"

text \<open>
  The engagement score before the clamp, with the substring tests and the count of
  question marks stated on the text itself: the base 50, 2 for every engaging word that
  occurs somewhere in the lowercased text (the words of the list are distinct), 10 for an example trigger, 3 for every question
  mark, 2 for every bullet, and 10 off when the period-split fragments (empty ones
  included) hold more than 25 words on average. The number of bullets is a parameter.
\<close>

definition engagement_sum :: "nat \<Rightarrow> pystr \<Rightarrow> int" where
  "engagement_sum bullets text =
     50
     + 2 * int (length (filter (\<lambda>w. 0 < occurrences w (lower text)) engaging_words))
     + (if 0 < occurrences for_example (lower text) \<or> 0 < occurrences example (lower text)
        then 10 else 0)
     + 3 * int (length (filter (\<lambda>c. c = 63) text))
     + 2 * int bullets
     - (if 25 < (of_nat (\<Sum>s\<leftarrow>split_on 46 text. length (py_split s)) :: rat)
                 / of_nat (length (split_on 46 text))
        then 10 else 0)"

text \<open>
  The bullets as the code finds them: the matches of the bullet pattern.
\<close>

definition engagement_raw :: "pystr \<Rightarrow> int" where
  "engagement_raw text = engagement_sum (length (findall_bullets engagement_marker text)) text"




text \<open>
  Test texts: one with two engaging words in mixed case, an example trigger, a question
  mark and three bullet lines, of which the pattern matches two; one sentence of 26 words;
  one bullet line without a newline before it.
\<close>

definition c3_text :: pystr where
  "c3_text = [C_p, c_o, c_ch, c_e, c_m, c_u, 63, 32, C_k, C_a, C_k, 32, c_n, c_a, c_p, c_r, c_i, c_m, c_e, c_r, 10, 45, 10, 45, 32, 97, 10, 8226, 32, 98]"



text \<open>
  A test text for the readability: two words of ten letters with two spaces between
  them, a period, a whitespace-only fragment and an empty one. Its words are three (the
  periods belong to them), its sentences one.
\<close>

definition c2_text :: pystr where
  "c2_text = asc ''abcdefghij  klmnopqrst. .''"

text \<open>
  A test text of one word of 31 code points, the period included: its readability is 0.
\<close>

definition c9_hard :: pystr where
  "c9_hard = asc ''abcdefghijklmnopqrstuvwxyzabcd.''"

section \<open>Properties of the string operations and dictionaries\<close>

lemma py_in_iff_count: "kw \<noteq> [] \<Longrightarrow> py_in kw s \<longleftrightarrow> 0 < py_count kw s"
  by (induction kw s rule: py_count.induct) auto

lemma dict_add_twice: "dict_add k a (dict_add k b d) = dict_add k (b + a) d"
  by (induction d) auto

lemma dict_add_fresh: "k \<notin> fst ` set d \<Longrightarrow> dict_add k v d = d @ [(k, v)]"
  by (induction d) auto

lemma score_keywords_total:
  "[] \<notin> set kws \<Longrightarrow>
   score_keywords t s kws sc =
     (if subject_total t kws = 0 then sc else dict_add s (subject_total t kws) sc)"
proof (induction kws arbitrary: sc)
  case Nil
  then show ?case by (simp add: score_keywords_def subject_total_def)
next
  case (Cons kw kws)
  have nn: "0 \<le> subject_total t kws" by (auto simp: subject_total_def intro!: sum_list_nonneg)
  have kw: "kw \<noteq> []" and rest: "[] \<notin> set kws" using Cons.prems by auto
  have step: "score_keywords t s (kw # kws) sc =
        score_keywords t s kws (if py_in kw t then dict_add s (int (py_count kw t)) sc else sc)"
    by (simp add: score_keywords_def)
  have tot: "subject_total t (kw # kws) = int (py_count kw t) + subject_total t kws"
    by (simp add: subject_total_def)
  show ?case
  proof (cases "py_in kw t")
    case True
    then have pos: "0 < py_count kw t" using py_in_iff_count[OF kw] by simp
    show ?thesis using True pos nn
      by (simp add: step tot Cons.IH[OF rest] dict_add_twice)
  next
    case False
    then have z: "py_count kw t = 0" using py_in_iff_count[OF kw] by simp
    show ?thesis using False z by (simp add: step tot Cons.IH[OF rest])
  qed
qed

lemma fold_scores:
  "distinct (map fst lx) \<Longrightarrow> fst ` set sc \<inter> fst ` set lx = {} \<Longrightarrow>
   \<forall>(s, kws) \<in> set lx. [] \<notin> set kws \<Longrightarrow>
   fold (\<lambda>(subject, keywords) sc. score_keywords t subject keywords sc) lx sc =
     sc @ filter (\<lambda>(s, v). v \<noteq> 0) (totals_of lx t)"
proof (induction lx arbitrary: sc)
  case Nil
  then show ?case by (simp add: totals_of_def)
next
  case (Cons p lx)
  obtain s kws where p: "p = (s, kws)" by (cases p)
  have fresh: "s \<notin> fst ` set sc" using Cons.prems(2) p by auto
  have kws: "[] \<notin> set kws" using Cons.prems(3) p by auto
  let ?sc' = "score_keywords t s kws sc"
  have sc': "?sc' = (if subject_total t kws = 0 then sc else sc @ [(s, subject_total t kws)])"
    by (simp add: score_keywords_total[OF kws] dict_add_fresh[OF fresh])
  have keys: "fst ` set ?sc' \<subseteq> insert s (fst ` set sc)"
    by (auto simp: sc')
  have d: "distinct (map fst lx)" and sn: "s \<notin> fst ` set lx"
    using Cons.prems(1) p by auto
  have k2: "fst ` set sc \<inter> fst ` set lx = {}" using Cons.prems(2) by auto
  have disj: "fst ` set ?sc' \<inter> fst ` set lx = {}"
    using keys sn k2 by blast
  have rest: "\<forall>(s, kws) \<in> set lx. [] \<notin> set kws" using Cons.prems(3) by auto
  have "fold (\<lambda>(subject, keywords) sc. score_keywords t subject keywords sc) (p # lx) sc =
        fold (\<lambda>(subject, keywords) sc. score_keywords t subject keywords sc) lx ?sc'"
    by (simp add: p)
  also have "\<dots> = ?sc' @ filter (\<lambda>(s, v). v \<noteq> 0) (totals_of lx t)"
    by (rule Cons.IH[OF d disj rest])
  also have "\<dots> = sc @ filter (\<lambda>(s, v). v \<noteq> 0) (totals_of (p # lx) t)"
    by (simp add: sc' p totals_of_def)
  finally show ?case .
qed


lemma Max_insert2:
  "finite S \<Longrightarrow> Max (insert (a::int) (insert c S)) = Max (insert (max a c) S)"
  by (cases "S = {}") (simp_all add: max.assoc)

lemma max_from_Max: "snd (max_from b xs) = Max (snd ` set (b # xs))"
proof (induction xs arbitrary: b)
  case Nil
  then show ?case by simp
next
  case (Cons x xs)
  have "snd (max_from b (x # xs)) = Max (insert (max (snd b) (snd x)) (snd ` set xs))"
    by (simp add: Cons.IH max_def)
  also have "\<dots> = Max (insert (snd b) (insert (snd x) (snd ` set xs)))"
    by (rule Max_insert2[symmetric]) simp
  finally show ?case by simp
qed

lemma max_from_ge: "y \<in> set (b # xs) \<Longrightarrow> snd y \<le> snd (max_from b xs)"
  unfolding max_from_Max by (rule Max_ge) auto

lemma max_from_first:
  "find (\<lambda>y. snd y = snd (max_from b xs)) (b # xs) = Some (max_from b xs)"
proof (induction xs arbitrary: b)
  case Nil
  then show ?case by simp
next
  case (Cons x xs)
  define b' where "b' = (if snd b < snd x then x else b)"
  define m where "m = max_from b' xs"
  have m: "max_from b (x # xs) = m" by (simp add: m_def b'_def)
  have IH: "find (\<lambda>y. snd y = snd m) (b' # xs) = Some m"
    unfolding m_def by (rule Cons.IH)
  have ge: "snd b' \<le> snd m" unfolding m_def by (rule max_from_ge) simp
  show ?case
  proof (cases "snd b < snd x")
    case True
    then have b': "b' = x" by (simp add: b'_def)
    have "snd b \<noteq> snd m" using ge True b' by auto
    then show ?thesis using IH b' unfolding m by simp
  next
    case False
    then have b': "b' = b" by (simp add: b'_def)
    show ?thesis
    proof (cases "snd b = snd m")
      case True
      then show ?thesis using IH b' unfolding m by simp
    next
      case nb: False
      then have "snd x \<noteq> snd m" using ge False b' by auto
      then show ?thesis using IH nb b' unfolding m by simp
    qed
  qed
qed

lemma subject_keywords_distinct: "distinct (map fst subject_keywords)"
  by (simp add: subject_keywords_def programming_def mathematics_def physics_def chemistry_def
      biology_def history_def languages_def)

lemma subject_keywords_nonempty: "\<forall>(s, kws) \<in> set subject_keywords. [] \<notin> set kws"
  by (simp add: subject_keywords_def)

lemma subject_scores_totals:
  "subject_scores t = filter (\<lambda>(s, v). v \<noteq> 0) (totals_of subject_keywords t)"
  unfolding subject_scores_def
  using fold_scores[OF subject_keywords_distinct _ subject_keywords_nonempty, of "[]" t]
  by simp

lemma subject_total_nonneg: "0 \<le> subject_total t kws"
  by (auto simp: subject_total_def intro!: sum_list_nonneg)

lemma subject_total_zero_iff:
  "[] \<notin> set kws \<Longrightarrow> subject_total t kws = 0 \<longleftrightarrow> (\<forall>kw \<in> set kws. \<not> py_in kw t)"
proof (induction kws)
  case Nil
  then show ?case by (simp add: subject_total_def)
next
  case (Cons kw kws)
  have kw: "kw \<noteq> []" using Cons.prems by auto
  have tot: "subject_total t (kw # kws) = int (py_count kw t) + subject_total t kws"
    by (simp add: subject_total_def)
  have "subject_total t (kw # kws) = 0 \<longleftrightarrow> py_count kw t = 0 \<and> subject_total t kws = 0"
    using subject_total_nonneg[of t kws] unfolding tot by auto
  then show ?case using Cons py_in_iff_count[OF kw, of t] by auto
qed

lemma find_SomeD: "find P xs = Some x \<Longrightarrow> P x \<and> x \<in> set xs"
  by (induction xs) (auto split: if_splits)

lemma find_filter: "(\<And>x. P x \<Longrightarrow> Q x) \<Longrightarrow> find P (filter Q xs) = find P xs"
  by (induction xs) auto

lemma first_max_filter:
  assumes nn: "\<forall>y \<in> set l. 0 \<le> snd y"
    and f: "filter (\<lambda>(s, v). v \<noteq> 0) l = x # xs"
  shows "find (\<lambda>(s, v). v = Max (set (map snd l))) l = Some (max_from x xs)"
proof -
  define m where "m = max_from x xs"
  have fm: "find (\<lambda>y. snd y = snd m) (x # xs) = Some m"
    unfolding m_def by (rule max_from_first)
  have "m \<in> set (x # xs)" using find_SomeD[OF fm] by simp
  then have mF: "m \<in> set (filter (\<lambda>(s, v). v \<noteq> 0) l)" by (simp only: f)
  then have ml: "m \<in> set l" and m0: "snd m \<noteq> 0" by auto
  have mpos: "0 < snd m" using nn ml m0 by force
  have le: "snd y \<le> snd m" if y: "y \<in> set l" for y
  proof (cases "snd y = 0")
    case True
    then show ?thesis using mpos by simp
  next
    case False
    then have "y \<in> set (filter (\<lambda>(s, v). v \<noteq> 0) l)" using y by (auto simp: case_prod_unfold)
    then have "y \<in> set (x # xs)" by (simp only: f)
    then show ?thesis unfolding m_def by (rule max_from_ge)
  qed
  have best: "Max (set (map snd l)) = snd m"
  proof (rule Max_eqI)
    show "finite (set (map snd l))" by simp
    show "snd m \<in> set (map snd l)" using ml by auto
    show "\<And>y. y \<in> set (map snd l) \<Longrightarrow> y \<le> snd m" using le by auto
  qed
  have "find (\<lambda>(s, v). v = Max (set (map snd l))) l = find (\<lambda>y. snd y = snd m) l"
    using best by (simp add: case_prod_unfold)
  also have "\<dots> = find (\<lambda>y. snd y = snd m) (filter (\<lambda>(s, v). v \<noteq> 0) l)"
    by (rule find_filter[symmetric]) (use m0 in \<open>auto simp: case_prod_unfold\<close>)
  also have "\<dots> = Some m" by (simp only: f fm)
  finally show ?thesis by (simp add: m_def)
qed

lemma detect_subject_refines: "detect_subject text = detect_subject_closed text"
proof -
  define t where "t = lower text"
  define totals where "totals = totals_of subject_keywords t"
  have nn: "\<forall>y \<in> set totals. 0 \<le> snd y"
    by (auto simp: totals_def totals_of_def subject_total_nonneg)
  have sc: "subject_scores t = filter (\<lambda>(s, v). v \<noteq> 0) totals"
    by (simp add: totals_def subject_scores_totals)
  have none: "(\<forall>(subject, keywords) \<in> set subject_keywords. \<forall>kw \<in> set keywords. \<not> py_in kw t)
      \<longleftrightarrow> filter (\<lambda>(s, v). v \<noteq> 0) totals = []"
  proof -
    have "filter (\<lambda>(s, v). v \<noteq> 0) totals = [] \<longleftrightarrow>
          (\<forall>(s, kws) \<in> set subject_keywords. subject_total t kws = 0)"
      by (auto simp: totals_def totals_of_def filter_empty_conv)
    also have "\<dots> \<longleftrightarrow> (\<forall>(s, kws) \<in> set subject_keywords. \<forall>kw \<in> set kws. \<not> py_in kw t)"
      using subject_keywords_nonempty subject_total_zero_iff by fastforce
    finally show ?thesis by simp
  qed
  show ?thesis
  proof (cases "filter (\<lambda>(s, v). v \<noteq> 0) totals")
    case Nil
    then show ?thesis using none
      by (simp add: detect_subject_def detect_subject_closed_def sc t_def[symmetric] totals_def[symmetric])
  next
    case (Cons x xs)
    have "find (\<lambda>(s, v). v = Max (set (map snd totals))) totals = Some (max_from x xs)"
      by (rule first_max_filter[OF nn Cons])
    then show ?thesis using none Cons
      by (auto simp: detect_subject_def detect_subject_closed_def sc t_def[symmetric] totals_def[symmetric]
          case_prod_unfold)
  qed
qed

subsection \<open>\<^verbatim>\<open>str.count\<close> counts the disjoint occurrences\<close>

lemma positions_Nil: "positions kw [] = []"
  by (simp add: positions_def)

lemma positions_Cons:
  "positions kw (c # cs) = (if prefix kw (c # cs) then [0] else []) @ map Suc (positions kw cs)"
proof -
  have u: "[0..<length (c # cs)] = 0 # map Suc [0..<length cs]"
    by (simp add: upt_conv_Cons map_Suc_upt del: upt_Suc)
  have f: "filter (occurs_at kw (c # cs)) (map Suc xs) = map Suc (filter (occurs_at kw cs) xs)" for xs
    by (induction xs) (simp_all add: occurs_at_def)
  show ?thesis
    unfolding positions_def u by (simp add: f) (simp add: occurs_at_def)
qed

lemma leftmost_disjoint_shift:
  "leftmost_disjoint len (Suc n) (map Suc ps) = leftmost_disjoint len n ps"
  by (induction ps arbitrary: n) simp_all

lemma leftmost_disjoint_shift0:
  "leftmost_disjoint len 0 (map Suc ps) = leftmost_disjoint len 0 ps"
  by (cases ps) (simp_all add: leftmost_disjoint_shift[of len "p + len" for p, simplified])

lemma leftmost_disjoint_drop:
  "leftmost_disjoint len m (positions kw s) = leftmost_disjoint len 0 (positions kw (drop m s))"
proof (induction m arbitrary: s)
  case 0
  then show ?case by simp
next
  case (Suc m)
  show ?case
  proof (cases s)
    case Nil
    then show ?thesis by (simp add: positions_Nil)
  next
    case (Cons c cs)
    then show ?thesis
      by (simp add: positions_Cons leftmost_disjoint_shift Suc.IH)
  qed
qed

lemma py_count_disjoint: "kw \<noteq> [] \<Longrightarrow> py_count kw s = disjoint_occurrences kw s"
proof (induction kw s rule: py_count.induct)
  case (1 s)
  then show ?case by simp
next
  case (2 k ks)
  then show ?case by (simp add: disjoint_occurrences_def positions_Nil)
next
  case (3 k ks c cs)
  show ?case
  proof (cases "prefix (k # ks) (c # cs)")
    case True
    have "py_count (k # ks) (c # cs) = 1 + disjoint_occurrences (k # ks) (drop (length ks) cs)"
      using True 3 by simp
    also have "\<dots> = 1 + leftmost_disjoint (Suc (length ks)) (length ks) (positions (k # ks) cs)"
      by (simp add: disjoint_occurrences_def leftmost_disjoint_drop[of _ "length ks"])
    also have "\<dots> = disjoint_occurrences (k # ks) (c # cs)"
      using True by (auto simp: disjoint_occurrences_def positions_Cons leftmost_disjoint_shift)
    finally show ?thesis .
  next
    case False
    have "py_count (k # ks) (c # cs) = py_count (k # ks) cs"
      using False by auto
    also have "\<dots> = disjoint_occurrences (k # ks) cs"
      using False 3 by simp
    also have "\<dots> = disjoint_occurrences (k # ks) (c # cs)"
      using False by (auto simp: disjoint_occurrences_def positions_Cons leftmost_disjoint_shift0)
    finally show ?thesis .
  qed
qed

lemma disjoint_zero_iff: "kw \<noteq> [] \<Longrightarrow> disjoint_occurrences kw t = 0 \<longleftrightarrow> \<not> py_in kw t"
  using py_in_iff_count[of kw t] py_count_disjoint[of kw t] by simp

lemma sum_disjoint:
  "[] \<notin> set kws \<Longrightarrow> (\<Sum>kw\<leftarrow>kws. int (disjoint_occurrences kw t)) = subject_total t kws"
  by (induction kws) (auto simp: subject_total_def py_count_disjoint)

lemma totals_disjoint:
  "\<forall>(s, kws) \<in> set lx. [] \<notin> set kws \<Longrightarrow>
   map (\<lambda>(subject, keywords). (subject, \<Sum>kw\<leftarrow>keywords. int (disjoint_occurrences kw t))) lx =
     totals_of lx t"
  by (induction lx) (auto simp: totals_of_def sum_disjoint)

lemma none_disjoint:
  "\<forall>(s, kws) \<in> set lx. [] \<notin> set kws \<Longrightarrow>
   (\<forall>(subject, keywords) \<in> set lx. \<forall>kw \<in> set keywords. disjoint_occurrences kw t = 0) \<longleftrightarrow>
   (\<forall>(subject, keywords) \<in> set lx. \<forall>kw \<in> set keywords. \<not> py_in kw t)"
proof (induction lx)
  case Nil
  then show ?case by simp
next
  case (Cons p lx)
  obtain s kws where p: "p = (s, kws)" by (cases p)
  have ne: "[] \<notin> set kws" using Cons.prems p by simp
  have "(\<forall>kw \<in> set kws. disjoint_occurrences kw t = 0) \<longleftrightarrow> (\<forall>kw \<in> set kws. \<not> py_in kw t)"
  proof (rule ball_cong[OF refl])
    fix kw assume "kw \<in> set kws"
    then have "kw \<noteq> []" using ne by auto
    then show "disjoint_occurrences kw t = 0 \<longleftrightarrow> \<not> py_in kw t" by (rule disjoint_zero_iff)
  qed
  moreover have "(\<forall>(subject, keywords) \<in> set lx. \<forall>kw \<in> set keywords. disjoint_occurrences kw t = 0) \<longleftrightarrow>
   (\<forall>(subject, keywords) \<in> set lx. \<forall>kw \<in> set keywords. \<not> py_in kw t)"
    using Cons by simp
  ultimately show ?case by (simp add: p)
qed

lemma detect_subject_argmax:
  "detect_subject text = argmax_subject disjoint_occurrences (lower text)"
  unfolding detect_subject_refines detect_subject_closed_def argmax_subject_def
    totals_disjoint[OF subject_keywords_nonempty] none_disjoint[OF subject_keywords_nonempty]
  by (simp only: Let_def)

lemma example_totals:
  assumes "example_words_only t"
  shows "totals_of subject_keywords t =
     [(programming, 15), (mathematics, 5), (physics, 0), (chemistry, 0), (biology, 0),
      (history, 0), (languages, 0)]"
proof -
  have f: "py_count word_function t = 5" and c: "py_count word_code t = 5"
    and a: "py_count word_algorithm t = 5"
    using assms
    by (simp_all add: example_words_only_def py_count_disjoint word_function_def word_code_def
        word_algorithm_def)
  have z: "py_count kw t = 0"
    if "kw \<in> set (concat (map snd subject_keywords))" "kw \<notin> {word_function, word_code, word_algorithm}" for kw
  proof -
    have ne: "kw \<noteq> []" using that(1) subject_keywords_nonempty by fastforce
    have "disjoint_occurrences kw t = 0" using assms that by (fastforce simp: example_words_only_def)
    then show ?thesis using py_count_disjoint[OF ne] by simp
  qed
  note z' = z[unfolded subject_keywords_def word_function_def word_code_def word_algorithm_def, simplified]
  show ?thesis
    using f c a
    by (simp add: totals_of_def subject_keywords_def subject_total_def z'
        word_function_def word_code_def word_algorithm_def)
qed

lemma c1_text_lower: "lower c1_text = c1_lowered"
  by (simp add: c1_text_def c1_lowered_def lower_def lower_cp_def)

lemma c1_unequal_subject: "detect_subject c1_unequal = physics"
  by (simp add: detect_subject_def subject_scores_def score_keywords_def subject_keywords_def
      c1_unequal_def lower_def lower_cp_def)

lemma c1_overlap_subject: "detect_subject c1_overlap = programming"
  by (simp add: detect_subject_def subject_scores_def score_keywords_def subject_keywords_def
      c1_overlap_def lower_def lower_cp_def)

lemma c1_overlap_lower: "lower c1_overlap = c1_overlap"
  by (simp add: c1_overlap_def lower_def lower_cp_def)

lemma c1_overlap_occurrences:
  "occurrences [c_t, c_e, c_k, c_s, c_t] c1_overlap = 3"
  "disjoint_occurrences [c_t, c_e, c_k, c_s, c_t] c1_overlap = 2"
  "py_count [c_t, c_e, c_k, c_s, c_t] c1_overlap = 2"
  "occurrences [c_k, c_o, c_d] c1_overlap = 2"
  by (simp_all add: occurrences_def disjoint_occurrences_def positions_Cons positions_Nil c1_overlap_def)

lemma c1_overlap_claimed: "argmax_subject occurrences (lower c1_overlap) = languages"
  unfolding c1_overlap_lower
  by (simp add: argmax_subject_def subject_keywords_def occurrences_def positions_Cons positions_Nil
      c1_overlap_def)

lemma subject_names_distinct: "languages \<noteq> programming"
  by (simp add: languages_def programming_def)

lemma c1_lowered_counts:
  "py_count [c_k, c_o, c_d] c1_lowered = 5"
  "py_count [c_f, c_u, c_n, c_k, c_ts, c_i, c_ya] c1_lowered = 5"
  "py_count [c_p, c_e, c_r, c_e, c_m, c_e, c_n, c_n, c_a, c_ya] c1_lowered = 0"
  "py_count [c_k, c_l, c_a, c_s, c_s] c1_lowered = 0"
  "py_count [c_o, c_b, c_hard, c_e, c_k, c_t] c1_lowered = 0"
  "py_count [c_a, c_l, c_g, c_o, c_r, c_i, c_t, c_m] c1_lowered = 5"
  "py_count [c_p, c_r, c_o, c_g, c_r, c_a, c_m, c_m, c_a] c1_lowered = 0"
  "py_count [c_u, c_r, c_a, c_v, c_n, c_e, c_n, c_i, c_e] c1_lowered = 0"
  "py_count [c_f, c_o, c_r, c_m, c_u, c_l, c_a] c1_lowered = 0"
  "py_count [c_t, c_e, c_o, c_r, c_e, c_m, c_a] c1_lowered = 0"
  "py_count [c_d, c_o, c_k, c_a, c_z, c_a, c_t, c_e, c_l, c_soft, c_s, c_t, c_v, c_o] c1_lowered = 0"
  "py_count [c_p, c_r, c_o, c_i, c_z, c_v, c_o, c_d, c_n, c_a, c_ya] c1_lowered = 0"
  "py_count [c_eh, c_n, c_e, c_r, c_g, c_i, c_ya] c1_lowered = 0"
  "py_count [c_s, c_i, c_l, c_a] c1_lowered = 0"
  "py_count [c_s, c_k, c_o, c_r, c_o, c_s, c_t, c_soft] c1_lowered = 0"
  "py_count [c_d, c_v, c_i, c_zh, c_e, c_n, c_i, c_e] c1_lowered = 0"
  "py_count [c_t, c_e, c_m, c_p, c_e, c_r, c_a, c_t, c_u, c_r, c_a] c1_lowered = 0"
  "py_count [c_v, c_o, c_l, c_n, c_a] c1_lowered = 0"
  "py_count [c_r, c_e, c_a, c_k, c_ts, c_i, c_ya] c1_lowered = 0"
  "py_count [c_eh, c_l, c_e, c_m, c_e, c_n, c_t] c1_lowered = 0"
  "py_count [c_m, c_o, c_l, c_e, c_k, c_u, c_l, c_a] c1_lowered = 0"
  "py_count [c_a, c_t, c_o, c_m] c1_lowered = 0"
  "py_count [c_s, c_o, c_e, c_d, c_i, c_n, c_e, c_n, c_i, c_e] c1_lowered = 0"
  "py_count [c_v, c_e, c_shch, c_e, c_s, c_t, c_v, c_o] c1_lowered = 0"
  "py_count [c_k, c_l, c_e, c_t, c_k, c_a] c1_lowered = 0"
  "py_count [c_o, c_r, c_g, c_a, c_n, c_i, c_z, c_m] c1_lowered = 0"
  "py_count [c_eh, c_v, c_o, c_l, c_yu, c_ts, c_i, c_ya] c1_lowered = 0"
  "py_count [c_g, c_e, c_n] c1_lowered = 0"
  "py_count [c_b, c_e, c_l, c_o, c_k] c1_lowered = 0"
  "py_count [c_t, c_k, c_a, c_n, c_soft] c1_lowered = 0"
  "py_count [c_v, c_o, c_j, c_n, c_a] c1_lowered = 0"
  "py_count [c_r, c_e, c_v, c_o, c_l, c_yu, c_ts, c_i, c_ya] c1_lowered = 0"
  "py_count [c_i, c_m, c_p, c_e, c_r, c_i, c_ya] c1_lowered = 0"
  "py_count [c_g, c_o, c_s, c_u, c_d, c_a, c_r, c_s, c_t, c_v, c_o] c1_lowered = 0"
  "py_count [c_k, c_u, c_l, c_soft, c_t, c_u, c_r, c_a] c1_lowered = 0"
  "py_count [c_s, c_o, c_b, c_y, c_t, c_i, c_e] c1_lowered = 0"
  "py_count [c_g, c_r, c_a, c_m, c_m, c_a, c_t, c_i, c_k, c_a] c1_lowered = 0"
  "py_count [c_s, c_l, c_o, c_v, c_o] c1_lowered = 0"
  "py_count [c_p, c_r, c_e, c_d, c_l, c_o, c_zh, c_e, c_n, c_i, c_e] c1_lowered = 0"
  "py_count [c_g, c_l, c_a, c_g, c_o, c_l] c1_lowered = 0"
  "py_count [c_s, c_u, c_shch, c_e, c_s, c_t, c_v, c_i, c_t, c_e, c_l, c_soft, c_n, c_o, c_e] c1_lowered = 0"
  "py_count [c_t, c_e, c_k, c_s, c_t] c1_lowered = 0"
  unfolding c1_lowered_def by simp_all

lemma c1_lowered_example: "example_words_only c1_lowered"
  unfolding example_words_only_def subject_keywords_def word_function_def word_code_def
    word_algorithm_def
  by (simp add: py_count_disjoint[symmetric] c1_lowered_counts)

subsection \<open>Readability and engagement\<close>

lemma strip_empty_iff: "strip s = [] \<longleftrightarrow> list_all isspace s"
proof -
  have "strip s = [] \<longleftrightarrow> (\<forall>x \<in> set (dropWhile isspace s). isspace x)"
    by (simp add: strip_def dropWhile_eq_Nil_conv)
  also have "\<dots> \<longleftrightarrow> dropWhile isspace s = []"
  proof
    assume a: "\<forall>x \<in> set (dropWhile isspace s). isspace x"
    show "dropWhile isspace s = []"
    proof (rule ccontr)
      assume "dropWhile isspace s \<noteq> []"
      then have "\<not> isspace (hd (dropWhile isspace s))" by (rule hd_dropWhile)
      moreover have "hd (dropWhile isspace s) \<in> set (dropWhile isspace s)"
        using \<open>dropWhile isspace s \<noteq> []\<close> by simp
      ultimately show False using a by blast
    qed
  qed (auto dest: set_dropWhileD)
  also have "\<dots> \<longleftrightarrow> list_all isspace s"
    by (simp add: dropWhile_eq_Nil_conv list_all_iff)
  finally show ?thesis .
qed

lemma sentences_of_alt: "sentences_of text = filter (\<lambda>s. \<not> list_all isspace s) (split_on 46 text)"
  by (simp add: sentences_of_def strip_empty_iff)

lemma calculate_readability_eq:
  "calculate_readability text =
     (if sentences_of text = [] \<or> py_split text = [] then Inr 50
      else Inr (py_round1 (clamp100 (readability_formula (length (py_split text))
                 (length (sentences_of text)) (sum_list (map length (py_split text)))))))"
  by (simp add: calculate_readability_def Let_def truediv_def readability_formula_def clamp100_def)

lemma round_half_even_bounds: "\<lfloor>x\<rfloor> \<le> round_half_even x \<and> round_half_even x \<le> \<lceil>x\<rceil>"
proof -
  have "\<lfloor>x\<rfloor> \<le> \<lceil>x\<rceil>" by (rule floor_le_ceiling)
  moreover have "\<lfloor>x\<rfloor> + 1 \<le> \<lceil>x\<rceil>" if "0 < x - of_int \<lfloor>x\<rfloor>"
    using that by linarith
  ultimately show ?thesis
    by (auto simp: round_half_even_def Let_def)
qed

lemma py_round1_bounds:
  assumes "0 \<le> x" "x \<le> 100"
  shows "0 \<le> py_round1 x \<and> py_round1 x \<le> 100"
proof -
  have "0 \<le> \<lfloor>x * 10\<rfloor>" using assms by simp
  then have lo: "0 \<le> round_half_even (x * 10)" using round_half_even_bounds[of "x * 10"] by linarith
  have "\<lceil>x * 10\<rceil> \<le> 1000" using assms by (simp add: ceiling_le_iff)
  then have hi: "round_half_even (x * 10) \<le> 1000" using round_half_even_bounds[of "x * 10"] by linarith
  have "py_round1 x \<le> 100"
    using hi unfolding py_round1_def by (simp add: divide_le_eq)
  moreover have "0 \<le> py_round1 x" using lo unfolding py_round1_def by simp
  ultimately show ?thesis by simp
qed

lemma clamp100_bounds: "0 \<le> clamp100 x \<and> clamp100 x \<le> 100"
  by (simp add: clamp100_def)

lemma calculate_readability_range:
  "\<exists>r. calculate_readability text = Inr r \<and> 0 \<le> r \<and> r \<le> 100"
  using py_round1_bounds[OF clamp100_bounds[THEN conjunct1] clamp100_bounds[THEN conjunct2]]
  by (simp add: calculate_readability_eq)

lemma split_on_nonempty: "split_on sep s \<noteq> []"
  by (induction s) (auto split: list.splits)

lemma c2_text_split: "py_split c2_text = [asc ''abcdefghij'', asc ''klmnopqrst.'', asc ''.'']"
  by (simp add: c2_text_def isspace_def)

lemma c2_text_sentences:
  "filter (\<lambda>s. \<not> list_all isspace s) (split_on 46 c2_text) = [asc ''abcdefghij  klmnopqrst'']"
  by (simp add: c2_text_def isspace_def)

lemma round_half_even_eqI:
  assumes "of_int n - 1 / 2 < x" "x < of_int n + 1 / 2"
  shows "round_half_even x = n"
proof -
  have "\<lfloor>x\<rfloor> = n \<or> \<lfloor>x\<rfloor> = n - 1" using assms by linarith
  then show ?thesis
  proof
    assume f: "\<lfloor>x\<rfloor> = n"
    then have "x - of_int \<lfloor>x\<rfloor> < 1 / 2" using assms by simp
    then show ?thesis using f by (simp add: round_half_even_def Let_def)
  next
    assume f: "\<lfloor>x\<rfloor> = n - 1"
    then have "1 / 2 < x - of_int \<lfloor>x\<rfloor>" using assms by simp
    then show ?thesis using f by (simp add: round_half_even_def Let_def)
  qed
qed

lemma c2_value:
  "py_round1 (max 0 (min 100 (206835 / 1000 - 1015 / 1000 * (3 / 1) - 846 / 10 * ((22 / 3) / 5)))) = 797 / 10"
proof -
  have r: "round_half_even (7971 / 10) = 797"
    by (rule round_half_even_eqI) simp_all
  have "(206835 / 1000 - 1015 / 1000 * (3 / 1) - 846 / 10 * ((22 / 3) / 5) :: rat) = 7971 / 100"
    by simp
  then show ?thesis by (simp add: py_round1_def r)
qed

subsection \<open>Engagement\<close>

lemma leftmost_disjoint_pos: "0 < leftmost_disjoint len 0 ps \<longleftrightarrow> ps \<noteq> []"
  by (cases ps) simp_all

lemma py_in_occurrences: "kw \<noteq> [] \<Longrightarrow> py_in kw s \<longleftrightarrow> 0 < occurrences kw s"
  using py_in_iff_count[of kw s] py_count_disjoint[of kw s]
  by (simp add: disjoint_occurrences_def occurrences_def leftmost_disjoint_pos)

lemma py_count_char: "py_count [c] s = length (filter (\<lambda>x. x = c) s)"
  by (induction s) auto


lemma engaging_words_nonempty: "[] \<notin> set engaging_words"
  by (simp add: engaging_words_def)

lemma sum_const2: "sum_list (map (\<lambda>w. 2::int) xs) = 2 * int (length xs)"
  by (induction xs) auto

lemma engaging_count:
  "sum_list (map (\<lambda>word. 2::int) (filter (\<lambda>word. py_in word t) engaging_words)) =
     2 * int (length (filter (\<lambda>w. 0 < occurrences w t) engaging_words))"
proof -
  have e: "filter (\<lambda>word. py_in word t) engaging_words = filter (\<lambda>w. 0 < occurrences w t) engaging_words"
  proof (rule filter_cong[OF refl])
    fix w assume "w \<in> set engaging_words"
    then have "w \<noteq> []" using engaging_words_nonempty by auto
    then show "py_in w t \<longleftrightarrow> 0 < occurrences w t" by (rule py_in_occurrences)
  qed
  show ?thesis by (simp add: sum_const2 e)
qed

lemma example_triggers:
  "py_in for_example t \<longleftrightarrow> 0 < occurrences for_example t"
  "py_in example t \<longleftrightarrow> 0 < occurrences example t"
  by (rule py_in_occurrences, simp add: for_example_def example_def)+

lemma calculate_engagement_score_eq:
  "calculate_engagement_score text = Inr (max 0 (min 100 (engagement_raw text)))"
proof -
  have ne: "split_on 46 text \<noteq> []" by (rule split_on_nonempty)
  then have len: "(of_nat (length (split_on 46 text)) :: rat) \<noteq> 0" by simp
  show ?thesis
    unfolding calculate_engagement_score_def engagement_raw_def engagement_sum_def Let_def truediv_def
      engaging_count example_triggers py_count_char
    using ne len by (simp add: mult.commute)
qed

lemma calculate_engagement_score_range:
  "\<exists>e. calculate_engagement_score text = Inr e \<and> 0 \<le> e \<and> e \<le> 100"
  by (simp add: calculate_engagement_score_eq)

lemmas text_eval = lower_def lower_cp_def isspace_def engagement_marker_def engaging_words_def
  for_example_def example_def

lemma c3_text_parts:
  "findall_bullets engagement_marker c3_text = [[10, 45, 10], [10, 8226, 32]]"
  "map (\<lambda>s. length (py_split s)) (split_on 46 c3_text) = [8]"
  "length (split_on 46 c3_text) = 1"
  "split_on 46 c3_text \<noteq> []"
  "filter (\<lambda>word. py_in word (lower c3_text)) engaging_words =
     [[c_p, c_o, c_ch, c_e, c_m, c_u], [c_k, c_a, c_k]]"
  "py_in for_example (lower c3_text)"
  "py_count [63] c3_text = 1"
  by (simp_all add: c3_text_def text_eval)

lemma c3_text_score: "calculate_engagement_score c3_text = Inr 71"
  by (simp add: calculate_engagement_score_def Let_def truediv_def c3_text_parts)









subsection \<open>The report\<close>

lemma calculate_readability_Inr: "\<exists>r. calculate_readability text = Inr r"
  using calculate_readability_range by blast

lemma analyze_comprehensive_Inr:
  "analyze_comprehensive text =
     Inr \<lparr>rep_basic_stats =
            \<lparr>st_word_count = length (findall_words None (lower text)),
             st_sentence_count = length (sentences_of text),
             st_unique_words = card (set (findall_words None (lower text))),
             st_avg_sentence_length =
               of_nat (length (findall_words None (lower text)))
                 / of_nat (max (length (sentences_of text)) 1)\<rparr>,
          rep_subject = detect_subject text,
          rep_keywords = extract_keywords text,
          rep_learning_styles = suggest_learning_style text,
          rep_readability_score = projr (calculate_readability text),
          rep_engagement_score = projr (calculate_engagement_score text),
          rep_prerequisites = identify_prerequisites text (detect_subject text),
          rep_flashcards = generate_flashcards text (extract_keywords text),
          rep_notes_template = generate_study_notes_template text (extract_keywords text),
          rep_difficulty_interpretation = interpret_readability (projr (calculate_readability text))\<rparr>"
proof -
  obtain r where r: "calculate_readability text = Inr r"
    using calculate_readability_Inr by blast
  obtain e where e: "calculate_engagement_score text = Inr e"
    using calculate_engagement_score_range by blast
  have m: "(of_nat (max (length (sentences_of text)) 1) :: rat) \<noteq> 0"
    by (auto simp: max_def)
  show ?thesis
    unfolding analyze_comprehensive_def Let_def r e truediv_def using m by simp
qed

lemma levels_distinct:
  "level_easy \<noteq> level_medium" "level_easy \<noteq> level_hard" "level_medium \<noteq> level_hard"
  by (simp_all add: level_easy_def level_medium_def level_hard_def)

lemma interpret_readability_level:
  "(in_level (interpret_readability score) = level_easy \<longleftrightarrow> 70 \<le> score) \<and>
   (in_level (interpret_readability score) = level_medium \<longleftrightarrow> 50 \<le> score \<and> score < 70) \<and>
   (in_level (interpret_readability score) = level_hard \<longleftrightarrow> score < 50)"
  using levels_distinct by (auto simp: interpret_readability_def)

lemma c2_text_readability: "calculate_readability c2_text = Inr (797 / 10)"
  using c2_value
  by (simp add: calculate_readability_eq sentences_of_alt c2_text_sentences c2_text_split
      clamp100_def readability_formula_def)

lemma round_half_even_0: "round_half_even 0 = 0"
  by (rule round_half_even_eqI) simp_all

lemma c9_hard_readability: "calculate_readability c9_hard = Inr 0"
proof -
  have s: "sentences_of c9_hard = [asc ''abcdefghijklmnopqrstuvwxyzabcd'']"
    by (simp add: sentences_of_alt c9_hard_def isspace_def)
  have w: "py_split c9_hard = [c9_hard]"
    by (simp add: c9_hard_def isspace_def)
  have l: "length c9_hard = 31" by (simp add: c9_hard_def)
  show ?thesis
    by (simp add: calculate_readability_eq s w l clamp100_def readability_formula_def
        py_round1_def round_half_even_0)
qed

lemma empty_readability: "calculate_readability [] = Inr 50"
  by (simp add: calculate_readability_eq)

lemma empty_engagement: "calculate_engagement_score [] = Inr 50"
  by (simp add: calculate_engagement_score_eq engagement_raw_def engagement_sum_def
      occurrences_def positions_Nil lower_def)

lemma empty_subject: "detect_subject [] = general"
  by (simp add: detect_subject_def subject_scores_def score_keywords_def subject_keywords_def lower_def)

lemma empty_words: "findall_words None (lower []) = []"
  by (simp add: lower_def)

lemma empty_keywords: "extract_keywords [] = []"
  by (simp add: extract_keywords_def most_common_def Counter_def sorted_desc_def lower_def)

lemma empty_sentences: "sentences_of [] = []"
  by (simp add: sentences_of_def strip_def)

lemma empty_flashcards: "generate_flashcards [] [] = []"
  by (simp add: generate_flashcards_def strip_def)

lemma empty_styles: "suggest_learning_style [] = [practical, visual, auditory]"
  by (simp add: suggest_learning_style_def style_scores_def style_keywords_def learning_styles_def
      code_fence_def def_marker_def lower_def sorted_desc_def)

lemma empty_prerequisites: "identify_prerequisites [] general = default_prerequisites"
  by (simp add: identify_prerequisites_def prerequisites_map_def advanced_keywords_def lower_def
      general_def programming_def mathematics_def physics_def chemistry_def biology_def
      history_def languages_def)

section \<open>The claims\<close>

subsection \<open>C1: subject detection\<close>

text \<open>
  C1, as the code has it. For every text, \<^verbatim>\<open>detect_subject\<close> scores each subject by the
  sum, over the subject's keywords, of the number of disjoint occurrences of the keyword in
  the lowercased text, counted from the left (an occurrence that overlaps the occurrence
  counted before it is not counted), and returns the subject with the maximum total, the
  first such subject in the order of the lexicon; when no keyword of any subject occurs it
  returns \<open>general\<close>. For a text in which the words for function, code and algorithm
  occur five times each and no other subject keyword occurs, the result is
  \<open>programming\<close>, and its score in the dictionary the code builds is 15.
\<close>

theorem C1_detect_subject:
  "detect_subject text = argmax_subject disjoint_occurrences (lower text) \<and>
   (example_words_only (lower text) \<longrightarrow>
      detect_subject text = programming \<and>
      map_of (subject_scores (lower text)) programming = Some 15)"
proof (intro conjI impI)
  show "detect_subject text = argmax_subject disjoint_occurrences (lower text)"
    by (rule detect_subject_argmax)
next
  assume ex: "example_words_only (lower text)"
  have sc: "subject_scores (lower text) = [(programming, 15), (mathematics, 5)]"
    by (simp add: subject_scores_totals example_totals[OF ex])
  show "detect_subject text = programming" by (simp add: detect_subject_def sc)
  show "map_of (subject_scores (lower text)) programming = Some 15" by (simp add: sc)
qed

text \<open>
  C1 as it is stated counts every substring occurrence of a keyword. The word for text
  overlaps itself: in \<open>c1_overlap\<close> it occurs at three positions, of which \<^verbatim>\<open>str.count\<close>
  counts two. Counting all three makes \<open>languages\<close> the subject with the maximum total;
  the code ties \<open>languages\<close> with \<open>programming\<close> at 2 and returns \<open>programming\<close>.
\<close>

theorem C1_detect_subject_counterexample:
  "occurrences [c_t, c_e, c_k, c_s, c_t] c1_overlap = 3 \<and>
   py_count [c_t, c_e, c_k, c_s, c_t] c1_overlap = 2 \<and>
   argmax_subject occurrences (lower c1_overlap) = languages \<and>
   detect_subject c1_overlap = programming \<and>
   detect_subject c1_overlap \<noteq> argmax_subject occurrences (lower c1_overlap)"
  by (simp add: c1_overlap_occurrences c1_overlap_claimed c1_overlap_subject subject_names_distinct[symmetric])

text \<open>
  The theorem at the example in mixed case, at a text with unequal counts and at the text
  with the overlapping keyword.
\<close>

theorem C1_detect_subject_witness:
  "example_words_only (lower c1_text) \<and> detect_subject c1_text = programming \<and>
   map_of (subject_scores (lower c1_text)) programming = Some 15 \<and>
   argmax_subject disjoint_occurrences (lower c1_text) = programming \<and>
   argmax_subject disjoint_occurrences (lower c1_unequal) = physics \<and>
   argmax_subject disjoint_occurrences (lower c1_overlap) = programming"
proof -
  have ex: "example_words_only (lower c1_text)"
    by (simp only: c1_text_lower c1_lowered_example)
  show ?thesis
    using C1_detect_subject[of c1_text] C1_detect_subject[of c1_unequal]
      C1_detect_subject[of c1_overlap] ex c1_unequal_subject c1_overlap_subject
    by metis
qed

subsection \<open>C2: readability\<close>



subsection \<open>C3: engagement\<close>




subsection \<open>C6: the scores stay on the scale\<close>

text \<open>
  C6. For every non-empty text, \<^verbatim>\<open>calculate_readability\<close> and
  \<^verbatim>\<open>calculate_engagement_score\<close> return a value (they raise no error), and the value lies
  between 0 and 100.
\<close>

theorem C6_scores_in_range:
  "text \<noteq> [] \<longrightarrow>
     (\<exists>r. calculate_readability text = Inr r \<and> 0 \<le> r \<and> r \<le> 100) \<and>
     (\<exists>e. calculate_engagement_score text = Inr e \<and> 0 \<le> e \<and> e \<le> 100)"
  using calculate_readability_range calculate_engagement_score_range by blast

text \<open>
  The theorem at the text of one long word, whose readability the clamp raises to 0, and
  at the text with every kind of engagement marker.
\<close>

theorem C6_scores_in_range_witness:
  "c9_hard \<noteq> [] \<and> calculate_readability c9_hard = Inr 0 \<and>
   (\<exists>e. calculate_engagement_score c9_hard = Inr e \<and> 0 \<le> e \<and> e \<le> 100) \<and>
   c3_text \<noteq> [] \<and> calculate_engagement_score c3_text = Inr 71 \<and>
   (\<exists>r. calculate_readability c3_text = Inr r \<and> 0 \<le> r \<and> r \<le> 100)"
proof -
  have a: "c9_hard \<noteq> []" by (simp add: c9_hard_def)
  have b: "c3_text \<noteq> []" by (simp add: c3_text_def)
  show ?thesis
    using C6_scores_in_range[of c9_hard] C6_scores_in_range[of c3_text] a b
      c9_hard_readability c3_text_score
    by blast
qed

subsection \<open>C7: no error on any text\<close>

text \<open>
  C7. No operation raises on any text: \<^verbatim>\<open>calculate_readability\<close>,
  \<^verbatim>\<open>calculate_engagement_score\<close> and \<^verbatim>\<open>analyze_comprehensive\<close> return a value for every
  text, the empty one included, although a division by zero is an error of the model.
  The readability is 50 when the list of sentences or the list of words is empty, and the
  average sentence length of the report divides by the number of sentences or by 1 if
  there is none. The report of the empty text holds the defaults: readability 50, the
  subject \<open>general\<close>, no keyword, the default ranking of the styles, the engagement 50 of
  the base alone, no flashcard, the generic prerequisites and statistics of zero.
\<close>

theorem C7_no_error:
  "(\<exists>r. calculate_readability text = Inr r) \<and>
   (\<exists>e. calculate_engagement_score text = Inr e) \<and>
   (\<exists>rep. analyze_comprehensive text = Inr rep \<and>
      st_avg_sentence_length (rep_basic_stats rep) =
        of_nat (st_word_count (rep_basic_stats rep))
          / of_nat (max (st_sentence_count (rep_basic_stats rep)) 1) \<and>
      1 \<le> max (st_sentence_count (rep_basic_stats rep)) 1) \<and>
   (sentences_of text = [] \<or> py_split text = [] \<longrightarrow> calculate_readability text = Inr 50) \<and>
   (\<exists>rep. analyze_comprehensive [] = Inr rep \<and>
      rep_readability_score rep = 50 \<and> rep_subject rep = general \<and> rep_keywords rep = [] \<and>
      rep_learning_styles rep = [practical, visual, auditory] \<and>
      rep_engagement_score rep = 50 \<and> rep_flashcards rep = [] \<and>
      rep_prerequisites rep = default_prerequisites \<and>
      st_word_count (rep_basic_stats rep) = 0 \<and> st_sentence_count (rep_basic_stats rep) = 0 \<and>
      st_unique_words (rep_basic_stats rep) = 0 \<and>
      st_avg_sentence_length (rep_basic_stats rep) = 0 \<and>
      in_level (rep_difficulty_interpretation rep) = level_medium)"
proof (intro conjI)
  show "\<exists>r. calculate_readability text = Inr r" by (rule calculate_readability_Inr)
  show "\<exists>e. calculate_engagement_score text = Inr e"
    using calculate_engagement_score_range by blast
  show "\<exists>rep. analyze_comprehensive text = Inr rep \<and>
      st_avg_sentence_length (rep_basic_stats rep) =
        of_nat (st_word_count (rep_basic_stats rep))
          / of_nat (max (st_sentence_count (rep_basic_stats rep)) 1) \<and>
      1 \<le> max (st_sentence_count (rep_basic_stats rep)) 1"
    unfolding analyze_comprehensive_Inr by simp
  show "sentences_of text = [] \<or> py_split text = [] \<longrightarrow> calculate_readability text = Inr 50"
    by (simp add: calculate_readability_eq)
  show "\<exists>rep. analyze_comprehensive [] = Inr rep \<and>
      rep_readability_score rep = 50 \<and> rep_subject rep = general \<and> rep_keywords rep = [] \<and>
      rep_learning_styles rep = [practical, visual, auditory] \<and>
      rep_engagement_score rep = 50 \<and> rep_flashcards rep = [] \<and>
      rep_prerequisites rep = default_prerequisites \<and>
      st_word_count (rep_basic_stats rep) = 0 \<and> st_sentence_count (rep_basic_stats rep) = 0 \<and>
      st_unique_words (rep_basic_stats rep) = 0 \<and>
      st_avg_sentence_length (rep_basic_stats rep) = 0 \<and>
      in_level (rep_difficulty_interpretation rep) = level_medium"
    unfolding analyze_comprehensive_Inr
    using interpret_readability_level[of 50]
    by (simp add: empty_readability empty_engagement empty_subject empty_words empty_keywords
        empty_sentences empty_flashcards empty_styles empty_prerequisites)
qed

text \<open>
  The theorem at the text of periods only, which has a word and no sentence: the
  readability is the default and the report exists.
\<close>

theorem C7_no_error_witness:
  "sentences_of (asc ''..'') = [] \<and> calculate_readability (asc ''..'') = Inr 50 \<and>
   (\<exists>e. calculate_engagement_score (asc ''..'') = Inr e) \<and>
   (\<exists>rep. analyze_comprehensive (asc ''..'') = Inr rep \<and>
      1 \<le> max (st_sentence_count (rep_basic_stats rep)) 1)"
proof -
  have s: "sentences_of (asc ''..'') = []"
    by (simp add: sentences_of_alt isspace_def)
  show ?thesis using C7_no_error[of "asc ''..''"] s by blast
qed

subsection \<open>C9: the difficulty level\<close>

text \<open>
  C9. In every report of \<^verbatim>\<open>analyze_comprehensive\<close> the level of the difficulty
  interpretation is the easy one exactly when the readability score of the report is at
  least 70, the medium one exactly when it is at least 50 and below 70, and the hard one
  exactly when it is below 50.
\<close>

theorem C9_difficulty_level:
  "analyze_comprehensive text = Inr rep \<longrightarrow>
     (in_level (rep_difficulty_interpretation rep) = level_easy \<longleftrightarrow> 70 \<le> rep_readability_score rep) \<and>
     (in_level (rep_difficulty_interpretation rep) = level_medium \<longleftrightarrow>
        50 \<le> rep_readability_score rep \<and> rep_readability_score rep < 70) \<and>
     (in_level (rep_difficulty_interpretation rep) = level_hard \<longleftrightarrow> rep_readability_score rep < 50)"
proof
  assume "analyze_comprehensive text = Inr rep"
  then have "rep_difficulty_interpretation rep = interpret_readability (rep_readability_score rep)"
    unfolding analyze_comprehensive_Inr by auto
  then show "(in_level (rep_difficulty_interpretation rep) = level_easy \<longleftrightarrow> 70 \<le> rep_readability_score rep) \<and>
     (in_level (rep_difficulty_interpretation rep) = level_medium \<longleftrightarrow>
        50 \<le> rep_readability_score rep \<and> rep_readability_score rep < 70) \<and>
     (in_level (rep_difficulty_interpretation rep) = level_hard \<longleftrightarrow> rep_readability_score rep < 50)"
    using interpret_readability_level[of "rep_readability_score rep"] by simp
qed

text \<open>
  The theorem at three reports: the test text of C2 scores 79.7 and is easy, the empty
  text scores 50, on the boundary, and is medium, the text of one long word scores 0 and
  is hard.
\<close>

theorem C9_difficulty_level_witness:
  "(\<exists>rep. analyze_comprehensive c2_text = Inr rep \<and> rep_readability_score rep = 797 / 10 \<and>
      in_level (rep_difficulty_interpretation rep) = level_easy) \<and>
   (\<exists>rep. analyze_comprehensive [] = Inr rep \<and> rep_readability_score rep = 50 \<and>
      in_level (rep_difficulty_interpretation rep) = level_medium) \<and>
   (\<exists>rep. analyze_comprehensive c9_hard = Inr rep \<and> rep_readability_score rep = 0 \<and>
      in_level (rep_difficulty_interpretation rep) = level_hard)"
proof -
  have w: "\<exists>rep. analyze_comprehensive t = Inr rep \<and> rep_readability_score rep = r \<and>
      in_level (rep_difficulty_interpretation rep) = l"
    if r: "calculate_readability t = Inr r"
      and l: "\<And>rep. analyze_comprehensive t = Inr rep \<Longrightarrow> rep_readability_score rep = r \<Longrightarrow>
                in_level (rep_difficulty_interpretation rep) = l" for t r l
  proof -
    obtain rep where rep: "analyze_comprehensive t = Inr rep" "rep_readability_score rep = r"
      unfolding analyze_comprehensive_Inr r by simp
    then show ?thesis using l by blast
  qed
  have a: "\<exists>rep. analyze_comprehensive c2_text = Inr rep \<and> rep_readability_score rep = 797 / 10 \<and>
      in_level (rep_difficulty_interpretation rep) = level_easy"
    by (rule w[OF c2_text_readability]) (use C9_difficulty_level[of c2_text] in simp)
  have b: "\<exists>rep. analyze_comprehensive [] = Inr rep \<and> rep_readability_score rep = 50 \<and>
      in_level (rep_difficulty_interpretation rep) = level_medium"
    by (rule w[OF empty_readability]) (use C9_difficulty_level[of "[]"] in simp)
  have c: "\<exists>rep. analyze_comprehensive c9_hard = Inr rep \<and> rep_readability_score rep = 0 \<and>
      in_level (rep_difficulty_interpretation rep) = level_hard"
    by (rule w[OF c9_hard_readability]) (use C9_difficulty_level[of c9_hard] in simp)
  show ?thesis using a b c by blast
qed


end
